theory Spec2Isabelle
  imports Complex_Main "HOL-Library.AList"
begin

section \<open>The backtesting engine of AlphaAgents (backtesting.py)\<close>

text \<open>
  The theory embeds the class \<open>PortfolioBacktester\<close> of \<^verbatim>\<open>src/AlphaAgents/backtesting.py\<close>:
  the acquisition loop, the alignment of the close prices, the metric computation and the
  two backtests.

  Numbers. A finite IEEE double is modelled by the real number it denotes, so rounding and
  overflow are not part of the model. The not-a-number value that pandas and numpy return
  where a quantity is undefined (the sample deviation of fewer than two points, \<open>0/0\<close>, a
  negative base under a fractional exponent) is the value \<open>None\<close> of the type \<open>npfloat\<close>.
  Close prices are taken to be non-zero: a zero close makes \<open>pct_change\<close> divide by zero,
  which numpy answers with an infinity that has no counterpart among the reals. The
  predicate \<open>nonzero_closes\<close> states this assumption; every general theorem about a
  backtest has it as a hypothesis, and the concrete providers below satisfy it.

  Series and frames. A pandas Series is the list of its (index, value) pairs in index
  order; a DataFrame is its list of column labels and its list of rows. The table that
  the data provider returns for a ticker is reduced to the only column the engine reads,
  \<open>Close\<close>.
\<close>

subsection \<open>Data model\<close>

type_synonym date = nat

type_synonym npfloat = "real option"

type_synonym series = "(date \<times> real) list"

type_synonym frame = "(date \<times> real) list"

type_synonym metrics = "(string \<times> npfloat) list"

datatype py_error = ZeroDivisionError | IndexError

text \<open>What \<open>yf.Ticker(ticker).history(start, end)\<close> does: it raises, or it returns a table
  (possibly an empty one).\<close>

datatype reply = Raised | History frame

type_synonym provider = "string \<Rightarrow> string \<Rightarrow> string \<Rightarrow> reply"

record 'a dataframe =
  columns :: "string list"
  rows :: "(date \<times> 'a list) list"

record backtest_result =
  portfolio_metrics :: metrics
  individual_metrics :: "(string \<times> metrics) list"
  portfolio_weights :: "(string \<times> real) list option"
  portfolio_returns :: series
  portfolio_value :: series
  final_value :: real
  total_return_pct :: npfloat
  correlation_matrix :: "(string \<times> (string \<times> npfloat) list) list"
  tickers :: "string list"
  start_date :: string
  end_date :: string
  trading_days :: nat

subsection \<open>The pandas and numpy operations the engine calls\<close>

definition series_values :: "(date \<times> 'a) list \<Rightarrow> 'a list" where
  "series_values s = map snd s"

definition mean :: "real list \<Rightarrow> real" where
  "mean xs = sum_list xs / real (length xs)"

text \<open>\<open>Series.std()\<close>: the sample standard deviation (\<open>ddof = 1\<close>), NaN below two points.\<close>

definition std :: "real list \<Rightarrow> npfloat" where
  "std xs =
     (if length xs < 2 then None
      else Some (sqrt (sum_list (map (\<lambda>x. (x - mean xs)\<^sup>2) xs) / (real (length xs) - 1))))"

text \<open>\<open>Series.cumprod()\<close>, the running product, as the loop it is.\<close>

fun cumprod_from :: "real \<Rightarrow> real list \<Rightarrow> real list" where
  "cumprod_from acc [] = []"
| "cumprod_from acc (x # xs) = (acc * x) # cumprod_from (acc * x) xs"

definition cumprod :: "real list \<Rightarrow> real list" where
  "cumprod xs = cumprod_from 1 xs"

text \<open>\<open>Series.expanding().max()\<close>, the running maximum.\<close>

fun expanding_max_from :: "real \<Rightarrow> real list \<Rightarrow> real list" where
  "expanding_max_from m [] = []"
| "expanding_max_from m (x # xs) = max m x # expanding_max_from (max m x) xs"

definition expanding_max :: "real list \<Rightarrow> real list" where
  "expanding_max xs = (case xs of [] \<Rightarrow> [] | x # ys \<Rightarrow> x # expanding_max_from x ys)"

text \<open>\<open>Series.min()\<close> and \<open>Series.max()\<close> skip NaN and are NaN when nothing is left.\<close>

definition nanmin :: "npfloat list \<Rightarrow> npfloat" where
  "nanmin xs = (case List.map_filter id xs of [] \<Rightarrow> None | v # vs \<Rightarrow> Some (fold min vs v))"

definition nanmax :: "npfloat list \<Rightarrow> npfloat" where
  "nanmax xs = (case List.map_filter id xs of [] \<Rightarrow> None | v # vs \<Rightarrow> Some (fold max vs v))"

text \<open>numpy's \<open>x ** y\<close> for an exponent \<open>y > 0\<close>: a negative base has a power only when the
  exponent is a whole number.\<close>

definition np_pow :: "real \<Rightarrow> real \<Rightarrow> npfloat" where
  "np_pow x y =
     (if 0 < x then Some (x powr y)
      else if x = 0 then Some (if y = 0 then 1 else 0)
      else if y = real_of_int \<lfloor>y\<rfloor> then Some (x ^ nat \<lfloor>y\<rfloor>)
      else None)"

text \<open>The guarded quotient \<open>a / b if b > 0 else 0\<close>; a comparison with NaN is false.\<close>

definition ratio_if_positive :: "npfloat \<Rightarrow> npfloat \<Rightarrow> npfloat" where
  "ratio_if_positive a b =
     (case b of
        None \<Rightarrow> Some 0
      | Some d \<Rightarrow> if 0 < d then map_option (\<lambda>n. n / d) a else Some 0)"

definition scale :: "real \<Rightarrow> npfloat \<Rightarrow> npfloat" where
  "scale c x = map_option (\<lambda>v. v * c) x"

text \<open>Pearson correlation as \<open>Series.corr\<close> and \<open>DataFrame.corr\<close> compute it: NaN when a
  deviation sum is zero (which covers a single observation).\<close>

definition corr :: "real list \<Rightarrow> real list \<Rightarrow> npfloat" where
  "corr xs ys =
     (let sxy = sum_list (map2 (\<lambda>x y. (x - mean xs) * (y - mean ys)) xs ys);
          sxx = sum_list (map (\<lambda>x. (x - mean xs)\<^sup>2) xs);
          syy = sum_list (map (\<lambda>y. (y - mean ys)\<^sup>2) ys)
      in if sxx * syy = 0 then None else Some (sxy / sqrt (sxx * syy)))"

text \<open>\<open>a.align(b, join='inner')[0]\<close>: the entries of \<open>a\<close> at the dates \<open>b\<close> has too.\<close>

definition align_inner :: "series \<Rightarrow> series \<Rightarrow> series" where
  "align_inner a b = filter (\<lambda>(d, v). d \<in> fst ` set b) a"

subsection \<open>calculate_returns and calculate_performance_metrics\<close>

text \<open>\<open>Series.pct_change()\<close> on a series without NaN, followed by \<open>dropna()\<close>: the first
  entry has no predecessor and is dropped. After a zero close numpy yields an infinity
  (or NaN for \<open>0/0\<close>); the model has no infinity and yields NaN there, so it agrees with
  the code only on non-zero closes (\<open>nonzero_closes\<close>).\<close>

fun pct_change_from :: "real \<Rightarrow> series \<Rightarrow> (date \<times> npfloat) list" where
  "pct_change_from p [] = []"
| "pct_change_from p ((d, c) # s) =
     (d, if p = 0 then None else Some (c / p - 1)) # pct_change_from c s"

definition pct_change :: "series \<Rightarrow> (date \<times> npfloat) list" where
  "pct_change s = (case s of [] \<Rightarrow> [] | (d, c) # r \<Rightarrow> (d, None) # pct_change_from c r)"

definition dropna_series :: "(date \<times> npfloat) list \<Rightarrow> series" where
  "dropna_series s = List.map_filter (\<lambda>(d, v). map_option (Pair d) v) s"

definition calculate_returns :: "frame \<Rightarrow> series" where
  "calculate_returns data = dropna_series (pct_change data)"

text \<open>Lines 93-94: the deviation of the negative returns, annualised.\<close>

definition downside_volatility :: "real list \<Rightarrow> npfloat" where
  "downside_volatility rs =
     (let downside_returns = filter (\<lambda>r. r < 0) rs
      in if length downside_returns > 0 then scale (sqrt 252) (std downside_returns)
         else Some 0)"

text \<open>Lines 101-104. Where the running maximum is zero the cumulative product is zero
  too (a factor was zero), so numpy divides \<open>0\<close> by \<open>0\<close> and the entry is NaN.\<close>

definition drawdown :: "real list \<Rightarrow> npfloat list" where
  "drawdown rs =
     (let cumulative = cumprod (map (\<lambda>r. 1 + r) rs);
          running_max = expanding_max cumulative
      in map2 (\<lambda>c m. if m = 0 then None else Some ((c - m) / m)) cumulative running_max)"

text \<open>Lines 122-137: the four entries added when a benchmark is given.\<close>

definition benchmark_entries :: "series \<Rightarrow> real \<Rightarrow> series option \<Rightarrow> metrics" where
  "benchmark_entries returns total_return benchmark_returns =
     (case benchmark_returns of
        None \<Rightarrow> []
      | Some bench \<Rightarrow>
          if length bench > 0 then
            (let aligned_returns = series_values (align_inner returns bench);
                 aligned_benchmark = series_values (align_inner bench returns)
             in if length aligned_returns > 0 then
                  (let correlation = corr aligned_returns aligned_benchmark;
                       excess_returns = map2 (\<lambda>r b. r - b) aligned_returns aligned_benchmark;
                       tracking_error = scale (sqrt 252) (std excess_returns);
                       information_ratio =
                         ratio_if_positive (Some (mean excess_returns * 252)) tracking_error;
                       benchmark_total = prod_list (map (\<lambda>r. 1 + r) (series_values bench)) - 1
                   in [(''correlation_to_benchmark'', correlation),
                       (''tracking_error'', scale 100 tracking_error),
                       (''information_ratio'', information_ratio),
                       (''alpha'', Some ((total_return - benchmark_total) * 100))])
                else [])
          else [])"

definition calculate_performance_metrics :: "series \<Rightarrow> series option \<Rightarrow> py_error + metrics" where
  "calculate_performance_metrics returns benchmark_returns =
     (let rs = series_values returns;
          total_return = prod_list (map (\<lambda>r. 1 + r) rs) - 1
      in if length rs = 0 then Inl ZeroDivisionError
         else
           (let annualized_return =
                  map_option (\<lambda>p. p - 1) (np_pow (1 + total_return) (252 / real (length rs)));
                volatility = scale (sqrt 252) (std rs);
                sharpe_ratio = ratio_if_positive annualized_return volatility;
                sortino_ratio = ratio_if_positive annualized_return (downside_volatility rs);
                max_drawdown = nanmin (drawdown rs);
                win_rate =
                  (if length rs > 0
                   then real (length (filter (\<lambda>r. 0 < r) rs)) / real (length rs) else 0)
            in Inr ([(''total_return'', Some (total_return * 100)),
                     (''annualized_return'', scale 100 annualized_return),
                     (''volatility'', scale 100 volatility),
                     (''sharpe_ratio'', sharpe_ratio),
                     (''sortino_ratio'', sortino_ratio),
                     (''max_drawdown'', scale 100 max_drawdown),
                     (''win_rate'', Some (win_rate * 100)),
                     (''best_day'', scale 100 (nanmax (map Some rs))),
                     (''worst_day'', scale 100 (nanmin (map Some rs)))]
                    @ benchmark_entries returns total_return benchmark_returns)))"

subsection \<open>fetch_historical_data\<close>

text \<open>The loop over the tickers (lines 51-64). The dictionary \<open>historical_data\<close> is an
  association list in insertion order; assigning to a key that is already there keeps its
  place, as a Python dictionary does. A ticker whose download raises or comes back empty
  is skipped.\<close>

fun fetch_loop ::
  "provider \<Rightarrow> string \<Rightarrow> string \<Rightarrow> (string \<times> frame) list \<Rightarrow> string list \<Rightarrow> (string \<times> frame) list"
where
  "fetch_loop yf sd ed historical_data [] = historical_data"
| "fetch_loop yf sd ed historical_data (ticker # rest) =
     fetch_loop yf sd ed
       (case yf ticker sd ed of
          Raised \<Rightarrow> historical_data
        | History df \<Rightarrow>
            if df \<noteq> [] then AList.update ticker df historical_data else historical_data)
       rest"

definition fetch_historical_data ::
  "provider \<Rightarrow> string list \<Rightarrow> string \<Rightarrow> string \<Rightarrow> (string \<times> frame) list"
where
  "fetch_historical_data yf ticker_list sd ed =
     fetch_loop yf sd ed [] ticker_list"

subsection \<open>The price matrix\<close>

text \<open>\<open>pd.DataFrame({ticker: data['Close'] ...})\<close>: one column per dictionary entry, the
  index is the sorted union of the columns' dates, a date a ticker lacks is NaN.\<close>

definition DataFrame :: "(string \<times> frame) list \<Rightarrow> npfloat dataframe" where
  "DataFrame data =
     \<lparr>columns = map fst data,
      rows = map (\<lambda>d. (d, map (\<lambda>(ticker, close). map_of close d) data))
               (sort (remdups (concat (map (\<lambda>(ticker, close). map fst close) data))))\<rparr>"

text \<open>\<open>fillna(method='ffill')\<close>: a NaN cell takes the value of the row above.\<close>

fun ffill_rows :: "npfloat list \<Rightarrow> (date \<times> npfloat list) list \<Rightarrow> (date \<times> npfloat list) list" where
  "ffill_rows prev [] = []"
| "ffill_rows prev ((d, r) # rest) =
     (let filled = map2 (\<lambda>p c. case c of None \<Rightarrow> p | Some v \<Rightarrow> Some v) prev r
      in (d, filled) # ffill_rows filled rest)"

definition ffill :: "npfloat dataframe \<Rightarrow> npfloat dataframe" where
  "ffill df =
     \<lparr>columns = columns df,
      rows = ffill_rows (replicate (length (columns df)) None) (rows df)\<rparr>"

text \<open>\<open>dropna()\<close>: only the rows without any NaN stay.\<close>

definition dropna :: "npfloat dataframe \<Rightarrow> real dataframe" where
  "dropna df =
     \<lparr>columns = columns df,
      rows = List.map_filter (\<lambda>(d, r). map_option (Pair d) (those r)) (rows df)\<rparr>"

text \<open>\<open>DataFrame.empty\<close>: an axis of length zero.\<close>

definition empty_df :: "'a dataframe \<Rightarrow> bool" where
  "empty_df df = (columns df = [] \<or> rows df = [])"

text \<open>\<open>DataFrame.pct_change()\<close> on a frame without NaN: the first row is all NaN. As for a
  series, a zero close in the row above is outside the model (\<open>nonzero_closes\<close>).\<close>

fun pct_change_rows :: "real list \<Rightarrow> (date \<times> real list) list \<Rightarrow> (date \<times> npfloat list) list" where
  "pct_change_rows prev [] = []"
| "pct_change_rows prev ((d, r) # rest) =
     (d, map2 (\<lambda>p c. if p = 0 then None else Some (c / p - 1)) prev r) # pct_change_rows r rest"

definition pct_change_df :: "real dataframe \<Rightarrow> npfloat dataframe" where
  "pct_change_df df =
     \<lparr>columns = columns df,
      rows = (case rows df of
                [] \<Rightarrow> []
              | (d, r) # rest \<Rightarrow> (d, map (\<lambda>c. None) r) # pct_change_rows r rest)\<rparr>"

text \<open>\<open>df[ticker]\<close> for the \<open>i\<close>-th column label, and the columns with their labels.\<close>

definition column :: "'a dataframe \<Rightarrow> nat \<Rightarrow> (date \<times> 'a) list" where
  "column df i = map (\<lambda>(d, r). (d, r ! i)) (rows df)"

definition labelled_columns :: "'a dataframe \<Rightarrow> (string \<times> (date \<times> 'a) list) list" where
  "labelled_columns df = map (\<lambda>i. (columns df ! i, column df i)) [0..<length (columns df)]"

text \<open>\<open>DataFrame.corr()\<close>: the correlation of every pair of columns.\<close>

definition corr_df :: "real dataframe \<Rightarrow> (string \<times> (string \<times> npfloat) list) list" where
  "corr_df df =
     map (\<lambda>(a, x). (a, map (\<lambda>(b, y). (b, corr (series_values x) (series_values y)))
                            (labelled_columns df)))
         (labelled_columns df)"

text \<open>Arithmetic on a series, entry by entry, and its running product.\<close>

definition series_map :: "('a \<Rightarrow> 'b) \<Rightarrow> (date \<times> 'a) list \<Rightarrow> (date \<times> 'b) list" where
  "series_map f s = map (\<lambda>(d, v). (d, f v)) s"

definition series_cumprod :: "series \<Rightarrow> series" where
  "series_cumprod s = zip (map fst s) (cumprod (series_values s))"

subsection \<open>The two backtests\<close>

text \<open>Lines 171-187 and 269-282: the benchmark is fetched with the tickers, popped from the
  dictionary, and the remaining close columns are aligned. The test of lines 174-175 on the
  number of tickers that have data only prints a warning.\<close>

definition price_matrix ::
  "provider \<Rightarrow> string list \<Rightarrow> string \<Rightarrow> string \<Rightarrow> string \<Rightarrow> real dataframe"
where
  "price_matrix yf ticker_list sd ed benchmark =
     (let all_tickers = ticker_list @ [benchmark];
          fetched = fetch_historical_data yf all_tickers sd ed;
          historical_data = AList.delete benchmark fetched
      in dropna (ffill (DataFrame historical_data)))"

text \<open>\<open>historical_data.pop(benchmark, None)\<close>, the value popped.\<close>

definition benchmark_frame :: "provider \<Rightarrow> string list \<Rightarrow> string \<Rightarrow> string \<Rightarrow> string \<Rightarrow> frame option" where
  "benchmark_frame yf ticker_list sd ed benchmark =
     map_of (fetch_historical_data yf (ticker_list @ [benchmark]) sd ed) benchmark"

text \<open>Lines 202 and 300: \<open>self.initial_capital * (1 + portfolio_returns).cumprod()\<close>.\<close>

definition value_trajectory :: "real \<Rightarrow> series \<Rightarrow> series" where
  "value_trajectory initial_capital pf_returns =
     series_map (\<lambda>c. initial_capital * c)
       (series_cumprod (series_map (\<lambda>r. 1 + r) pf_returns))"

text \<open>The loop of lines 211-214 (and 309-312) over the columns of the return matrix.\<close>

fun individual_loop ::
  "(string \<times> metrics) list \<Rightarrow> (string \<times> series) list \<Rightarrow> py_error + (string \<times> metrics) list"
where
  "individual_loop acc [] = Inr acc"
| "individual_loop acc ((ticker, stock_returns) # rest) =
     (case calculate_performance_metrics stock_returns None of
        Inl e \<Rightarrow> Inl e
      | Inr m \<Rightarrow> individual_loop (AList.update ticker m acc) rest)"

text \<open>Lines 201-231 and 299-327, the same in both backtests: from the return matrix and
  the portfolio return series to the result dictionary. The value \<open>Inr None\<close> of a backtest
  is the empty dictionary \<open>{}\<close>. The assignment \<open>self.results = results\<close> stores the value that
  is returned and is not modelled apart from it. The parameter \<open>rebalance_frequency\<close> of the
  equal-weight backtest is only printed and is left out.\<close>

definition build_results ::
  "real \<Rightarrow> real dataframe \<Rightarrow> real dataframe \<Rightarrow> series \<Rightarrow> frame option
     \<Rightarrow> (string \<times> real) list option \<Rightarrow> string \<Rightarrow> string \<Rightarrow> py_error + backtest_result option"
where
  "build_results initial_capital prices returns pf_returns benchmark_data weights sd ed =
     (let pf_value = value_trajectory initial_capital pf_returns
      in case calculate_performance_metrics pf_returns
                (map_option calculate_returns benchmark_data) of
           Inl e \<Rightarrow> Inl e
         | Inr m \<Rightarrow>
             (case individual_loop [] (labelled_columns returns) of
                Inl e \<Rightarrow> Inl e
              | Inr ims \<Rightarrow>
                  if pf_value = [] then Inl IndexError
                  else
                    Inr (Some
                      \<lparr>portfolio_metrics = m,
                       individual_metrics = ims,
                       portfolio_weights = weights,
                       portfolio_returns = pf_returns,
                       portfolio_value = pf_value,
                       final_value = snd (last pf_value),
                       total_return_pct =
                         (if initial_capital = 0 then None
                          else Some ((snd (last pf_value) / initial_capital - 1) * 100)),
                       correlation_matrix = corr_df returns,
                       tickers = columns prices,
                       start_date = sd,
                       end_date = ed,
                       trading_days = length (rows prices)\<rparr>)))"

definition backtest_equal_weight_portfolio ::
  "real \<Rightarrow> provider \<Rightarrow> string list \<Rightarrow> string \<Rightarrow> string \<Rightarrow> string
     \<Rightarrow> py_error + backtest_result option"
where
  "backtest_equal_weight_portfolio initial_capital yf tickers_arg sd ed benchmark =
     (let benchmark_data = benchmark_frame yf tickers_arg sd ed benchmark;
          prices = price_matrix yf tickers_arg sd ed benchmark
      in if empty_df prices then Inr None
         else
           (let returns = dropna (pct_change_df prices);
                pf_returns = map (\<lambda>(d, r). (d, mean r)) (rows returns)
            in build_results initial_capital prices returns pf_returns benchmark_data None sd ed))"

text \<open>Lines 263-266. The weight mapping is a dictionary: an association list with distinct
  keys. Dividing a Python float by zero raises. The tolerance test compares exact reals; on
  doubles it can come out differently when \<open>|s - 1|\<close> is within rounding distance of 0.01.\<close>

definition normalize_weights :: "(string \<times> real) list \<Rightarrow> py_error + (string \<times> real) list" where
  "normalize_weights weights =
     (let total_weight = sum_list (map snd weights)
      in if \<bar>total_weight - 1.0\<bar> > 0.01 then
           (if weights \<noteq> [] \<and> total_weight = 0 then Inl ZeroDivisionError
            else Inr (map (\<lambda>(k, v). (k, v / total_weight)) weights))
         else Inr weights)"

text \<open>\<open>portfolio_weights.get(ticker, 0)\<close>.\<close>

definition get_weight :: "(string \<times> real) list \<Rightarrow> string \<Rightarrow> real" where
  "get_weight weights ticker = (case map_of weights ticker of None \<Rightarrow> 0 | Some w \<Rightarrow> w)"

definition backtest_weighted_portfolio ::
  "real \<Rightarrow> provider \<Rightarrow> (string \<times> real) list \<Rightarrow> string \<Rightarrow> string \<Rightarrow> string
     \<Rightarrow> py_error + backtest_result option"
where
  "backtest_weighted_portfolio initial_capital yf weights_arg sd ed benchmark =
     (case normalize_weights weights_arg of
        Inl e \<Rightarrow> Inl e
      | Inr weights \<Rightarrow>
          (let ticker_list = map fst weights;
               benchmark_data = benchmark_frame yf ticker_list sd ed benchmark;
               prices = price_matrix yf ticker_list sd ed benchmark
           in if empty_df prices then Inr None
              else
                (let returns = dropna (pct_change_df prices);
                     pf_returns =
                       map (\<lambda>(d, r). (d, sum_list (map2 (\<lambda>ticker x. x * get_weight weights ticker)
                                                      (columns returns) r)))
                           (rows returns)
                 in build_results initial_capital prices returns pf_returns benchmark_data
                      (Some weights) sd ed)))"

subsection \<open>Observing a call, and the concrete inputs used below\<close>

text \<open>The populated dictionary a backtest returned; \<open>None\<close> when it raised or returned
  \<open>{}\<close>.\<close>

definition returned :: "py_error + backtest_result option \<Rightarrow> backtest_result option" where
  "returned x = (case x of Inl e \<Rightarrow> None | Inr r \<Rightarrow> r)"

text \<open>Whether the provider has a non-empty table for a ticker.\<close>

definition has_data :: "provider \<Rightarrow> string \<Rightarrow> string \<Rightarrow> string \<Rightarrow> bool" where
  "has_data yf sd ed ticker =
     (case yf ticker sd ed of Raised \<Rightarrow> False | History df \<Rightarrow> df \<noteq> [])"

text \<open>Two tickers with disjoint date ranges: A trades on days 11 and 12, B on days 21 and 22;
  nothing else is listed.\<close>

definition yf_disjoint :: provider where
  "yf_disjoint ticker sd ed =
     (if ticker = ''A'' then History [(11, 10), (12, 11)]
      else if ticker = ''B'' then History [(21, 20), (22, 22)]
      else History [])"

text \<open>Ticker A has three closes, ticker B is unknown to the provider (the download
  raises), the benchmark SPY has the same three days.\<close>

definition yf_partial :: provider where
  "yf_partial ticker sd ed =
     (if ticker = ''A'' then History [(11, 100), (12, 110), (13, 99)]
      else if ticker = ''SPY'' then History [(11, 400), (12, 404), (13, 400)]
      else Raised)"

text \<open>Two tickers and the benchmark on the same four days.\<close>

definition yf_two :: provider where
  "yf_two ticker sd ed =
     (if ticker = ''A'' then History [(11, 100), (12, 110), (13, 99), (14, 99)]
      else if ticker = ''B'' then History [(11, 50), (12, 50), (13, 55), (14, 44)]
      else if ticker = ''SPY'' then History [(11, 400), (12, 404), (13, 400), (14, 410)]
      else History [])"

text \<open>A single ticker with a single close.\<close>

definition yf_one_day :: provider where
  "yf_one_day ticker sd ed = (if ticker = ''A'' then History [(11, 10)] else History [])"

text \<open>The provider's contract that the model relies on: no close of a requested ticker
  is zero.\<close>

definition nonzero_closes :: "provider \<Rightarrow> string \<Rightarrow> string \<Rightarrow> string list \<Rightarrow> bool" where
  "nonzero_closes yf sd ed ticker_list =
     list_all (\<lambda>ticker. case yf ticker sd ed of
                           Raised \<Rightarrow> True
                         | History df \<Rightarrow> list_all (\<lambda>(d, c). c \<noteq> 0) df)
       ticker_list"

text \<open>The aligned return matrix of lines 196 and 291, \<open>prices.pct_change().dropna()\<close>.\<close>

definition return_matrix ::
  "provider \<Rightarrow> string list \<Rightarrow> string \<Rightarrow> string \<Rightarrow> string \<Rightarrow> real dataframe"
where
  "return_matrix yf ticker_list sd ed benchmark =
     dropna (pct_change_df (price_matrix yf ticker_list sd ed benchmark))"

section \<open>Properties\<close>

subsection \<open>The metric computation fails exactly on the empty series\<close>

lemma calc_Inl_iff:
  "calculate_performance_metrics r b = Inl e \<longleftrightarrow> r = [] \<and> e = ZeroDivisionError"
  by (auto simp: calculate_performance_metrics_def series_values_def Let_def)

lemma calc_Nil [simp]: "calculate_performance_metrics [] b = Inl ZeroDivisionError"
  by (simp add: calc_Inl_iff)

lemma calc_Inr_ex: "r \<noteq> [] \<Longrightarrow> \<exists>m. calculate_performance_metrics r b = Inr m"
  by (simp add: calculate_performance_metrics_def series_values_def Let_def)

lemma benchmark_entries_keys:
  "fst ` set (benchmark_entries r t b) \<subseteq>
     {''correlation_to_benchmark'', ''tracking_error'', ''information_ratio'', ''alpha''}"
  by (auto simp: benchmark_entries_def Let_def split: option.splits if_splits)

subsection \<open>The value trajectory\<close>

lemma length_cumprod_from: "length (cumprod_from a xs) = length xs"
  by (induction xs arbitrary: a) auto

lemma cumprod_from_nth:
  "i < length xs \<Longrightarrow> cumprod_from a xs ! i = a * prod_list (take (Suc i) xs)"
proof (induction xs arbitrary: a i)
  case Nil
  then show ?case by simp
next
  case (Cons x xs)
  show ?case
  proof (cases i)
    case 0
    then show ?thesis by simp
  next
    case (Suc j)
    with Cons.prems have "j < length xs" by simp
    from Cons.IH[OF this, of "a * x"] Suc show ?thesis by (simp add: mult.assoc)
  qed
qed

lemma value_trajectory_dates: "map fst (value_trajectory ic s) = map fst s"
  by (simp add: value_trajectory_def series_map_def series_cumprod_def series_values_def
      cumprod_def length_cumprod_from comp_def case_prod_unfold)

lemma value_trajectory_nth:
  assumes "t < length s"
  shows "snd (value_trajectory ic s ! t) =
         ic * prod_list (map (\<lambda>r. 1 + r) (take (Suc t) (series_values s)))"
  using assms
  by (simp add: value_trajectory_def series_map_def series_cumprod_def series_values_def
      cumprod_def length_cumprod_from cumprod_from_nth comp_def case_prod_unfold take_map)

subsection \<open>What a backtest returns\<close>

lemma build_results_Some:
  assumes "build_results ic prices returns pf bd w sd ed = Inr (Some res)"
  shows "portfolio_returns res = pf" "portfolio_value res = value_trajectory ic pf"
    "tickers res = columns prices" "portfolio_weights res = w"
    "correlation_matrix res = corr_df returns"
    "individual_loop [] (labelled_columns returns) = Inr (individual_metrics res)"
    "calculate_performance_metrics pf (map_option calculate_returns bd) = Inr (portfolio_metrics res)"
    "trading_days res = length (rows prices)"
    "pf \<noteq> []"
  using assms
  by (cases "pf = []"; auto simp: build_results_def Let_def split: sum.splits if_splits)+

lemma individual_loop_ex:
  "\<forall>(t, s) \<in> set cols. s \<noteq> [] \<Longrightarrow> \<exists>ims. individual_loop acc cols = Inr ims"
proof (induction cols arbitrary: acc)
  case Nil
  then show ?case by simp
next
  case (Cons c cols)
  obtain t s where c: "c = (t, s)" by (cases c)
  with Cons.prems have "s \<noteq> []" by simp
  then obtain m where "calculate_performance_metrics s None = Inr m"
    using calc_Inr_ex by blast
  with Cons c show ?case by simp
qed

lemma labelled_columns_nonempty:
  "rows df \<noteq> [] \<Longrightarrow> \<forall>(t, s) \<in> set (labelled_columns df). s \<noteq> []"
  by (auto simp: labelled_columns_def column_def)

lemma value_trajectory_Nil_iff: "value_trajectory ic s = [] \<longleftrightarrow> s = []"
  using value_trajectory_dates[of ic s] by (metis map_is_Nil_conv)

lemma build_results_ex:
  assumes "pf \<noteq> []" "rows returns \<noteq> []"
  shows "\<exists>res. build_results ic prices returns pf bd w sd ed = Inr (Some res)"
proof -
  obtain m where m: "calculate_performance_metrics pf (map_option calculate_returns bd) = Inr m"
    using calc_Inr_ex[OF assms(1)] by blast
  obtain ims where ims: "individual_loop [] (labelled_columns returns) = Inr ims"
    using individual_loop_ex[OF labelled_columns_nonempty[OF assms(2)]] by blast
  show ?thesis
    using m ims assms(1) by (simp add: build_results_def Let_def value_trajectory_Nil_iff)
qed

lemma backtest_equal_unfold:
  "backtest_equal_weight_portfolio ic yf ts sd ed bm =
     (if empty_df (price_matrix yf ts sd ed bm) then Inr None
      else build_results ic (price_matrix yf ts sd ed bm)
             (dropna (pct_change_df (price_matrix yf ts sd ed bm)))
             (map (\<lambda>(d, r). (d, mean r)) (rows (dropna (pct_change_df (price_matrix yf ts sd ed bm)))))
             (benchmark_frame yf ts sd ed bm) None sd ed)"
  by (simp add: backtest_equal_weight_portfolio_def Let_def)

lemma backtest_weighted_unfold:
  "normalize_weights ws = Inr w \<Longrightarrow>
   backtest_weighted_portfolio ic yf ws sd ed bm =
     (if empty_df (price_matrix yf (map fst w) sd ed bm) then Inr None
      else build_results ic (price_matrix yf (map fst w) sd ed bm)
             (dropna (pct_change_df (price_matrix yf (map fst w) sd ed bm)))
             (map (\<lambda>(d, r). (d, sum_list (map2 (\<lambda>ticker x. x * get_weight w ticker)
                      (columns (dropna (pct_change_df (price_matrix yf (map fst w) sd ed bm)))) r)))
                (rows (dropna (pct_change_df (price_matrix yf (map fst w) sd ed bm)))))
             (benchmark_frame yf (map fst w) sd ed bm) (Some w) sd ed)"
  by (simp add: backtest_weighted_portfolio_def Let_def)

lemma backtest_weighted_Some_normalized:
  "backtest_weighted_portfolio ic yf ws sd ed bm = Inr r \<Longrightarrow> \<exists>w. normalize_weights ws = Inr w"
  by (auto simp: backtest_weighted_portfolio_def split: sum.splits)

subsection \<open>The tickers A and B of \<open>yf_two\<close>\<close>

lemma fetch_two:
  "fetch_historical_data yf_two [''A'', ''B'', ''SPY''] sd ed =
     [(''A'', [(11, 100), (12, 110), (13, 99), (14, 99)]),
      (''B'', [(11, 50), (12, 50), (13, 55), (14, 44)]),
      (''SPY'', [(11, 400), (12, 404), (13, 400), (14, 410)])]"
  by (simp add: fetch_historical_data_def yf_two_def)

lemma price_matrix_two:
  "price_matrix yf_two [''A'', ''B''] sd ed ''SPY'' =
     \<lparr>columns = [''A'', ''B''],
      rows = [(11, [100, 50]), (12, [110, 50]), (13, [99, 55]), (14, [99, 44])]\<rparr>"
  by (simp add: price_matrix_def fetch_two DataFrame_def ffill_def dropna_def
      List.map_filter_def)

lemma returns_two:
  "dropna (pct_change_df
     \<lparr>columns = [''A'', ''B''],
      rows = [(11, [100, 50]), (12, [110, 50]), (13, [99, 55]), (14, [99, 44::real])]\<rparr>) =
     \<lparr>columns = [''A'', ''B''],
      rows = [(12, [1/10, 0]), (13, [- 1/10, 1/10]), (14, [0, - 1/5])]\<rparr>"
  by (simp add: pct_change_df_def dropna_def List.map_filter_def)

subsection \<open>From a non-empty return matrix to a result\<close>

lemma price_matrix_no_columns:
  "columns (price_matrix yf ts sd ed bm) = [] \<Longrightarrow> rows (price_matrix yf ts sd ed bm) = []"
  by (simp add: price_matrix_def Let_def dropna_def ffill_def DataFrame_def List.map_filter_def)

lemma return_rows_price_rows:
  "rows (dropna (pct_change_df P)) \<noteq> [] \<Longrightarrow> rows P \<noteq> []"
  by (auto simp: dropna_def pct_change_df_def List.map_filter_def)

lemma return_matrix_not_empty:
  assumes "rows (return_matrix yf ts sd ed bm) \<noteq> []"
  shows "\<not> empty_df (price_matrix yf ts sd ed bm)"
proof -
  have "rows (price_matrix yf ts sd ed bm) \<noteq> []"
    using assms return_rows_price_rows by (simp add: return_matrix_def)
  then show ?thesis
    using price_matrix_no_columns[of yf ts sd ed bm] by (auto simp: empty_df_def)
qed

lemma backtest_equal_build:
  assumes "rows (return_matrix yf ts sd ed bm) \<noteq> []"
  shows "backtest_equal_weight_portfolio ic yf ts sd ed bm =
     build_results ic (price_matrix yf ts sd ed bm) (return_matrix yf ts sd ed bm)
       (map (\<lambda>(d, r). (d, mean r)) (rows (return_matrix yf ts sd ed bm)))
       (benchmark_frame yf ts sd ed bm) None sd ed"
  using return_matrix_not_empty[OF assms]
  by (simp add: backtest_equal_unfold return_matrix_def)

lemma backtest_weighted_build:
  assumes "normalize_weights ws = Inr w" "rows (return_matrix yf (map fst w) sd ed bm) \<noteq> []"
  shows "backtest_weighted_portfolio ic yf ws sd ed bm =
     build_results ic (price_matrix yf (map fst w) sd ed bm) (return_matrix yf (map fst w) sd ed bm)
       (map (\<lambda>(d, r). (d, sum_list (map2 (\<lambda>ticker x. x * get_weight w ticker)
                (columns (return_matrix yf (map fst w) sd ed bm)) r)))
          (rows (return_matrix yf (map fst w) sd ed bm)))
       (benchmark_frame yf (map fst w) sd ed bm) (Some w) sd ed"
  using return_matrix_not_empty[OF assms(2)]
  by (simp add: backtest_weighted_unfold[OF assms(1)] return_matrix_def)

lemma build_results_trajectory:
  assumes "map fst pf = map fst (rows R)" "rows R \<noteq> []"
  shows "\<exists>res. build_results ic P R pf bd w sd ed = Inr (Some res)
       \<and> map fst (portfolio_returns res) = map fst (rows R)
       \<and> map fst (portfolio_value res) = map fst (portfolio_returns res)
       \<and> (\<forall>t < length (portfolio_returns res).
             snd (portfolio_value res ! t) =
               ic * prod_list (map (\<lambda>r. 1 + r)
                      (take (Suc t) (series_values (portfolio_returns res)))))"
proof -
  have ne: "pf \<noteq> []" using assms by auto
  obtain res where r: "build_results ic P R pf bd w sd ed = Inr (Some res)"
    using build_results_ex[OF ne assms(2)] by blast
  have "portfolio_returns res = pf" "portfolio_value res = value_trajectory ic pf"
    using build_results_Some(1,2)[OF r] by auto
  then show ?thesis
    using r assms(1) by (simp add: value_trajectory_dates value_trajectory_nth)
qed

text \<open>
  Claim C1. Whenever the aligned return matrix of a backtest is not empty, the backtest,
  equal-weight or weighted, returns a result whose return series has the dates of that
  matrix, and the value trajectory has the same dates and at the \<open>t\<close>-th of them the value
  \<open>initial_capital\<close> times the product of \<open>1 + r\<close> over the portfolio returns up to and
  including that date. For the returns 0.01, -0.02, 0.03 and a capital of 100000 the
  trajectory is 101000, 98980, 101949.4.
\<close>

theorem portfolio_value_compounds:
  "(nonzero_closes yf sd ed (ts @ [bm]) \<and> rows (return_matrix yf ts sd ed bm) \<noteq> [] \<longrightarrow>
      (\<exists>res. backtest_equal_weight_portfolio ic yf ts sd ed bm = Inr (Some res)
         \<and> map fst (portfolio_returns res) = map fst (rows (return_matrix yf ts sd ed bm))
         \<and> map fst (portfolio_value res) = map fst (portfolio_returns res)
         \<and> (\<forall>t < length (portfolio_returns res).
               snd (portfolio_value res ! t) =
                 ic * prod_list (map (\<lambda>r. 1 + r)
                        (take (Suc t) (series_values (portfolio_returns res)))))))
   \<and> (normalize_weights ws = Inr w \<and> nonzero_closes yf sd ed (map fst w @ [bm])
        \<and> rows (return_matrix yf (map fst w) sd ed bm) \<noteq> [] \<longrightarrow>
      (\<exists>res. backtest_weighted_portfolio ic yf ws sd ed bm = Inr (Some res)
         \<and> map fst (portfolio_returns res) = map fst (rows (return_matrix yf (map fst w) sd ed bm))
         \<and> map fst (portfolio_value res) = map fst (portfolio_returns res)
         \<and> (\<forall>t < length (portfolio_returns res).
               snd (portfolio_value res ! t) =
                 ic * prod_list (map (\<lambda>r. 1 + r)
                        (take (Suc t) (series_values (portfolio_returns res)))))))
   \<and> series_values (value_trajectory 100000 [(11, 0.01), (12, - 0.02), (13, 0.03)])
         = [101000, 98980, 101949.4]"
proof (intro conjI impI)
  assume a: "nonzero_closes yf sd ed (ts @ [bm]) \<and> rows (return_matrix yf ts sd ed bm) \<noteq> []"
  then have ne: "rows (return_matrix yf ts sd ed bm) \<noteq> []" by simp
  have d: "map fst (map (\<lambda>(d, r). (d, mean r)) (rows (return_matrix yf ts sd ed bm)))
           = map fst (rows (return_matrix yf ts sd ed bm))"
    by (simp add: comp_def case_prod_unfold)
  show "\<exists>res. backtest_equal_weight_portfolio ic yf ts sd ed bm = Inr (Some res)
         \<and> map fst (portfolio_returns res) = map fst (rows (return_matrix yf ts sd ed bm))
         \<and> map fst (portfolio_value res) = map fst (portfolio_returns res)
         \<and> (\<forall>t < length (portfolio_returns res).
               snd (portfolio_value res ! t) =
                 ic * prod_list (map (\<lambda>r. 1 + r)
                        (take (Suc t) (series_values (portfolio_returns res)))))"
    unfolding backtest_equal_build[OF ne]
    by (rule build_results_trajectory[OF d ne])
next
  assume a: "normalize_weights ws = Inr w \<and> nonzero_closes yf sd ed (map fst w @ [bm])
        \<and> rows (return_matrix yf (map fst w) sd ed bm) \<noteq> []"
  then have n: "normalize_weights ws = Inr w"
    and ne: "rows (return_matrix yf (map fst w) sd ed bm) \<noteq> []" by simp_all
  have d: "map fst (map (\<lambda>(d, r). (d, sum_list (map2 (\<lambda>ticker x. x * get_weight w ticker)
                (columns (return_matrix yf (map fst w) sd ed bm)) r)))
          (rows (return_matrix yf (map fst w) sd ed bm)))
           = map fst (rows (return_matrix yf (map fst w) sd ed bm))"
    by (simp add: comp_def case_prod_unfold)
  show "\<exists>res. backtest_weighted_portfolio ic yf ws sd ed bm = Inr (Some res)
         \<and> map fst (portfolio_returns res) = map fst (rows (return_matrix yf (map fst w) sd ed bm))
         \<and> map fst (portfolio_value res) = map fst (portfolio_returns res)
         \<and> (\<forall>t < length (portfolio_returns res).
               snd (portfolio_value res ! t) =
                 ic * prod_list (map (\<lambda>r. 1 + r)
                        (take (Suc t) (series_values (portfolio_returns res)))))"
    unfolding backtest_weighted_build[OF n ne]
    by (rule build_results_trajectory[OF d ne])
next
  show "series_values (value_trajectory 100000 [(11, 0.01), (12, - 0.02), (13, 0.03)])
         = [101000, 98980, 101949.4]"
    by (simp add: value_trajectory_def series_map_def series_cumprod_def series_values_def
        cumprod_def)
qed

lemma return_matrix_two:
  "return_matrix yf_two [''A'', ''B''] sd ed ''SPY'' =
     \<lparr>columns = [''A'', ''B''],
      rows = [(12, [1/10, 0]), (13, [- 1/10, 1/10]), (14, [0, - 1/5])]\<rparr>"
  by (simp only: return_matrix_def price_matrix_two returns_two)

lemma nonzero_closes_two: "nonzero_closes yf_two sd ed [''A'', ''B'', ''SPY'']"
  by (simp add: nonzero_closes_def yf_two_def)

lemma normalize_halves:
  "normalize_weights [(''A'', 1/2), (''B'', 1/2)] = Inr [(''A'', 1/2), (''B'', 1/2)]"
  by (simp add: normalize_weights_def)

theorem portfolio_value_compounds_witness:
  "nonzero_closes yf_two ''2024-01-01'' ''2024-12-31'' ([''A'', ''B''] @ [''SPY''])
   \<and> rows (return_matrix yf_two [''A'', ''B''] ''2024-01-01'' ''2024-12-31'' ''SPY'') \<noteq> []
   \<and> (\<exists>res. backtest_equal_weight_portfolio 100000 yf_two [''A'', ''B'']
                ''2024-01-01'' ''2024-12-31'' ''SPY'' = Inr (Some res)
          \<and> portfolio_returns res = [(12, 1/20), (13, 0), (14, - 1/10)]
          \<and> map fst (portfolio_value res) = [12, 13, 14]
          \<and> snd (portfolio_value res ! 0) = 105000
          \<and> snd (portfolio_value res ! 1) = 105000
          \<and> snd (portfolio_value res ! 2) = 94500)
   \<and> normalize_weights [(''A'', 1/2), (''B'', 1/2)] = Inr [(''A'', 1/2), (''B'', 1/2)]
   \<and> (\<exists>res. backtest_weighted_portfolio 100000 yf_two [(''A'', 1/2), (''B'', 1/2)]
                ''2024-01-01'' ''2024-12-31'' ''SPY'' = Inr (Some res)
          \<and> portfolio_returns res = [(12, 1/20), (13, 0), (14, - 1/10)]
          \<and> map fst (portfolio_value res) = [12, 13, 14]
          \<and> snd (portfolio_value res ! 0) = 105000
          \<and> snd (portfolio_value res ! 1) = 105000
          \<and> snd (portfolio_value res ! 2) = 94500)"
proof -
  let ?sd = "''2024-01-01''" and ?ed = "''2024-12-31''"
  let ?w = "[(''A'', 1/2), (''B'', 1/2 :: real)]"
  note inst = portfolio_value_compounds[of yf_two ?sd ?ed "[''A'', ''B'']" "''SPY''" 100000 ?w ?w]
  have nz: "nonzero_closes yf_two ?sd ?ed ([''A'', ''B''] @ [''SPY''])"
    using nonzero_closes_two by simp
  have ne: "rows (return_matrix yf_two [''A'', ''B''] ?sd ?ed ''SPY'') \<noteq> []"
    by (simp add: return_matrix_two)
  have nw: "normalize_weights ?w = Inr ?w" by (rule normalize_halves)
  have nz': "nonzero_closes yf_two ?sd ?ed (map fst ?w @ [''SPY''])"
    using nonzero_closes_two by simp
  have ne': "rows (return_matrix yf_two (map fst ?w) ?sd ?ed ''SPY'') \<noteq> []"
    by (simp add: return_matrix_two)
  have "\<exists>res. backtest_equal_weight_portfolio 100000 yf_two [''A'', ''B''] ?sd ?ed ''SPY'' = Inr (Some res)
         \<and> map fst (portfolio_returns res)
             = map fst (rows (return_matrix yf_two [''A'', ''B''] ?sd ?ed ''SPY''))
         \<and> map fst (portfolio_value res) = map fst (portfolio_returns res)
         \<and> (\<forall>t < length (portfolio_returns res).
               snd (portfolio_value res ! t) =
                 100000 * prod_list (map (\<lambda>r. 1 + r)
                        (take (Suc t) (series_values (portfolio_returns res)))))"
    by (rule mp[OF conjunct1[OF inst] conjI[OF nz ne]])
  then obtain res where
    r: "backtest_equal_weight_portfolio 100000 yf_two [''A'', ''B''] ?sd ?ed ''SPY'' = Inr (Some res)"
    and d: "map fst (portfolio_value res) = map fst (portfolio_returns res)"
    and v: "\<forall>t < length (portfolio_returns res).
               snd (portfolio_value res ! t) =
                 100000 * prod_list (map (\<lambda>r. 1 + r)
                        (take (Suc t) (series_values (portfolio_returns res))))"
    by (elim exE conjE)
  have pr: "portfolio_returns res = [(12, 1/20), (13, 0), (14, - 1/10)]"
    using build_results_Some(1)[OF r[unfolded backtest_equal_build[OF ne]]]
    by (simp add: return_matrix_two mean_def)
  have l: "length (portfolio_returns res) = 3" by (simp add: pr)
  have e0: "snd (portfolio_value res ! 0) = 105000"
    using v[rule_format, of 0] by (simp add: pr series_values_def)
  have e1: "snd (portfolio_value res ! 1) = 105000"
    using v[rule_format, of 1] by (simp add: pr series_values_def)
  have e2: "snd (portfolio_value res ! 2) = 94500"
    using v[rule_format, of 2] by (simp add: pr series_values_def)
  have ed: "map fst (portfolio_value res) = [12, 13, 14]"
    using d by (simp add: pr)
  have E: "\<exists>res. backtest_equal_weight_portfolio 100000 yf_two [''A'', ''B'']
                ''2024-01-01'' ''2024-12-31'' ''SPY'' = Inr (Some res)
          \<and> portfolio_returns res = [(12, 1/20), (13, 0), (14, - 1/10)]
          \<and> map fst (portfolio_value res) = [12, 13, 14]
          \<and> snd (portfolio_value res ! 0) = 105000
          \<and> snd (portfolio_value res ! 1) = 105000
          \<and> snd (portfolio_value res ! 2) = 94500"
    by (intro exI[of _ res] conjI r pr ed e0 e1 e2)
  have "\<exists>res. backtest_weighted_portfolio 100000 yf_two ?w ?sd ?ed ''SPY'' = Inr (Some res)
         \<and> map fst (portfolio_returns res)
             = map fst (rows (return_matrix yf_two (map fst ?w) ?sd ?ed ''SPY''))
         \<and> map fst (portfolio_value res) = map fst (portfolio_returns res)
         \<and> (\<forall>t < length (portfolio_returns res).
               snd (portfolio_value res ! t) =
                 100000 * prod_list (map (\<lambda>r. 1 + r)
                        (take (Suc t) (series_values (portfolio_returns res)))))"
    by (rule mp[OF conjunct1[OF conjunct2[OF inst]] conjI[OF nw conjI[OF nz' ne']]])
  then obtain res' where
    r': "backtest_weighted_portfolio 100000 yf_two ?w ?sd ?ed ''SPY'' = Inr (Some res')"
    and d': "map fst (portfolio_value res') = map fst (portfolio_returns res')"
    and v': "\<forall>t < length (portfolio_returns res').
               snd (portfolio_value res' ! t) =
                 100000 * prod_list (map (\<lambda>r. 1 + r)
                        (take (Suc t) (series_values (portfolio_returns res'))))"
    by (elim exE conjE)
  have pr': "portfolio_returns res' = [(12, 1/20), (13, 0), (14, - 1/10)]"
    using build_results_Some(1)[OF r'[unfolded backtest_weighted_build[OF nw ne']]]
    by (simp add: return_matrix_two get_weight_def)
  have e0': "snd (portfolio_value res' ! 0) = 105000"
    using v'[rule_format, of 0] by (simp add: pr' series_values_def)
  have e1': "snd (portfolio_value res' ! 1) = 105000"
    using v'[rule_format, of 1] by (simp add: pr' series_values_def)
  have e2': "snd (portfolio_value res' ! 2) = 94500"
    using v'[rule_format, of 2] by (simp add: pr' series_values_def)
  have ed': "map fst (portfolio_value res') = [12, 13, 14]"
    using d' by (simp add: pr')
  have E': "\<exists>res. backtest_weighted_portfolio 100000 yf_two [(''A'', 1/2), (''B'', 1/2)]
                ''2024-01-01'' ''2024-12-31'' ''SPY'' = Inr (Some res)
          \<and> portfolio_returns res = [(12, 1/20), (13, 0), (14, - 1/10)]
          \<and> map fst (portfolio_value res) = [12, 13, 14]
          \<and> snd (portfolio_value res ! 0) = 105000
          \<and> snd (portfolio_value res ! 1) = 105000
          \<and> snd (portfolio_value res ! 2) = 94500"
    by (intro exI[of _ res'] conjI r' pr' ed' e0' e1' e2')
  show ?thesis
    by (intro conjI nz ne nw E E')
qed

subsection \<open>The entries of a metric dictionary\<close>

lemma calc_Inr_eq:
  assumes "returns \<noteq> []"
  shows "calculate_performance_metrics returns b =
    Inr ([(''total_return'', Some ((prod_list (map (\<lambda>r. 1 + r) (series_values returns)) - 1) * 100)),
          (''annualized_return'', scale 100 (map_option (\<lambda>p. p - 1)
              (np_pow (prod_list (map (\<lambda>r. 1 + r) (series_values returns)))
                      (252 / real (length returns))))),
          (''volatility'', scale 100 (scale (sqrt 252) (std (series_values returns)))),
          (''sharpe_ratio'', ratio_if_positive
              (map_option (\<lambda>p. p - 1)
                 (np_pow (prod_list (map (\<lambda>r. 1 + r) (series_values returns)))
                         (252 / real (length returns))))
              (scale (sqrt 252) (std (series_values returns)))),
          (''sortino_ratio'', ratio_if_positive
              (map_option (\<lambda>p. p - 1)
                 (np_pow (prod_list (map (\<lambda>r. 1 + r) (series_values returns)))
                         (252 / real (length returns))))
              (downside_volatility (series_values returns))),
          (''max_drawdown'', scale 100 (nanmin (drawdown (series_values returns)))),
          (''win_rate'', Some (real (length (filter (\<lambda>r. 0 < r) (series_values returns)))
                               / real (length returns) * 100)),
          (''best_day'', scale 100 (nanmax (map Some (series_values returns)))),
          (''worst_day'', scale 100 (nanmin (map Some (series_values returns))))]
         @ benchmark_entries returns (prod_list (map (\<lambda>r. 1 + r) (series_values returns)) - 1) b)"
  using assms by (simp add: calculate_performance_metrics_def Let_def series_values_def)

lemma calc_volatility:
  assumes "calculate_performance_metrics returns b = Inr m"
  shows "map_of m ''volatility'' = Some (scale 100 (scale (sqrt 252) (std (series_values returns))))"
proof -
  have ne: "returns \<noteq> []" using assms by (cases returns) auto
  show ?thesis using assms unfolding calc_Inr_eq[OF ne] by auto
qed

lemma calc_sharpe:
  assumes "calculate_performance_metrics returns b = Inr m"
  shows "map_of m ''sharpe_ratio'' = Some (ratio_if_positive
              (map_option (\<lambda>p. p - 1)
                 (np_pow (prod_list (map (\<lambda>r. 1 + r) (series_values returns)))
                         (252 / real (length returns))))
              (scale (sqrt 252) (std (series_values returns))))"
proof -
  have ne: "returns \<noteq> []" using assms by (cases returns) auto
  show ?thesis using assms unfolding calc_Inr_eq[OF ne] by auto
qed

text \<open>
  Claim C9. On the empty return series the metric computation does not reach the win rate:
  the exponent \<open>252 / len(returns)\<close> of line 89 divides by zero first. The equal-weight
  backtest of a single ticker with a single close runs into it.
\<close>

theorem empty_series_raises:
  "calculate_performance_metrics [] None = Inl ZeroDivisionError
   \<and> backtest_equal_weight_portfolio 100000 yf_one_day [''A''] ''2024-01-01'' ''2024-12-31'' ''SPY''
       = Inl ZeroDivisionError"
proof -
  have f: "fetch_historical_data yf_one_day [''A'', ''SPY''] ''2024-01-01'' ''2024-12-31''
           = [(''A'', [(11, 10)])]"
    by (simp add: fetch_historical_data_def yf_one_day_def)
  have p: "price_matrix yf_one_day [''A''] ''2024-01-01'' ''2024-12-31'' ''SPY''
           = \<lparr>columns = [''A''], rows = [(11, [10])]\<rparr>"
    by (simp add: price_matrix_def f DataFrame_def ffill_def dropna_def List.map_filter_def)
  have r: "dropna (pct_change_df \<lparr>columns = [''A''], rows = [(11, [10::real])]\<rparr>)
           = \<lparr>columns = [''A''], rows = []\<rparr>"
    by (simp add: pct_change_df_def dropna_def List.map_filter_def)
  show ?thesis
    by (simp add: backtest_equal_unfold p r empty_df_def build_results_def)
qed

text \<open>
  Claim C8, as the code has it. For a return series of length one the volatility entry is
  NaN, since the sample standard deviation of a single point is undefined, and the Sharpe
  ratio, whose guard compares that NaN with zero, is 0. From two points on the volatility
  is a real number, and it is not negative.
\<close>

theorem volatility_short_series:
  "(length returns = 1 \<longrightarrow>
      (\<exists>m. calculate_performance_metrics returns b = Inr m
          \<and> map_of m ''volatility'' = Some None
          \<and> map_of m ''sharpe_ratio'' = Some (Some 0)))
   \<and> (2 \<le> length returns \<longrightarrow>
      (\<exists>m v. calculate_performance_metrics returns b = Inr m
          \<and> map_of m ''volatility'' = Some (Some v) \<and> 0 \<le> v))"
proof (intro conjI impI)
  assume l: "length returns = 1"
  then have ne: "returns \<noteq> []" by auto
  then obtain m where m: "calculate_performance_metrics returns b = Inr m"
    using calc_Inr_ex by blast
  have s: "std (series_values returns) = None"
    using l by (simp add: std_def series_values_def)
  have "map_of m ''volatility'' = Some None"
    by (simp add: calc_volatility[OF m] s scale_def)
  moreover have "map_of m ''sharpe_ratio'' = Some (Some 0)"
    by (simp add: calc_sharpe[OF m] s scale_def ratio_if_positive_def)
  ultimately show "\<exists>m. calculate_performance_metrics returns b = Inr m
          \<and> map_of m ''volatility'' = Some None
          \<and> map_of m ''sharpe_ratio'' = Some (Some 0)"
    using m by blast
next
  assume l: "2 \<le> length returns"
  then have ne: "returns \<noteq> []" by auto
  then obtain m where m: "calculate_performance_metrics returns b = Inr m"
    using calc_Inr_ex by blast
  define q where "q = sum_list (map (\<lambda>x. (x - mean (series_values returns))\<^sup>2)
      (series_values returns)) / (real (length (series_values returns)) - 1)"
  have s: "std (series_values returns) = Some (sqrt q)"
    using l by (simp add: std_def series_values_def q_def)
  have "0 \<le> sum_list (map (\<lambda>x. (x - mean (series_values returns))\<^sup>2) (series_values returns))"
    by (rule sum_list_nonneg) auto
  moreover have "0 \<le> real (length (series_values returns)) - 1"
    using l by (simp add: series_values_def)
  ultimately have q: "0 \<le> q"
    unfolding q_def by (rule divide_nonneg_nonneg)
  have v: "map_of m ''volatility'' = Some (Some (sqrt q * sqrt 252 * 100))"
    by (simp add: calc_volatility[OF m] s scale_def)
  have "0 \<le> sqrt q * sqrt 252 * 100"
    using q by simp
  with m v show "\<exists>m v. calculate_performance_metrics returns b = Inr m
          \<and> map_of m ''volatility'' = Some (Some v) \<and> 0 \<le> v"
    by blast
qed

theorem volatility_short_series_witness:
  "length [(11, 1 / 100 :: real)] = 1
   \<and> (\<exists>m. calculate_performance_metrics [(11, 1 / 100)] None = Inr m
          \<and> map_of m ''volatility'' = Some None
          \<and> map_of m ''sharpe_ratio'' = Some (Some 0))
   \<and> 2 \<le> length [(11, 1 / 100 :: real), (12, - 1 / 50)]
   \<and> (\<exists>m v. calculate_performance_metrics [(11, 1 / 100), (12, - 1 / 50)] None = Inr m
          \<and> map_of m ''volatility'' = Some (Some v) \<and> 0 \<le> v)"
proof -
  have a: "length [(11, 1 / 100 :: real)] = 1" by simp
  have b: "2 \<le> length [(11, 1 / 100 :: real), (12, - 1 / 50)]" by simp
  note i1 = volatility_short_series[of "[(11, 1 / 100)]" None]
  note i2 = volatility_short_series[of "[(11, 1 / 100), (12, - 1 / 50)]" None]
  show ?thesis
    by (intro conjI a b mp[OF conjunct1[OF i1] a] mp[OF conjunct2[OF i2] b])
qed

theorem volatility_single_point_counterexample:
  "\<not> isl (calculate_performance_metrics [(11, 1 / 100)] None)
   \<and> map_of (projr (calculate_performance_metrics [(11, 1 / 100)] None)) ''volatility''
       = Some None"
proof -
  obtain m where m: "calculate_performance_metrics [(11, 1 / 100)] None = Inr m"
    using calc_Inr_ex[of "[(11, 1 / 100)]" None] by auto
  have "map_of m ''volatility'' = Some None"
    unfolding calc_volatility[OF m] by (simp add: std_def series_values_def scale_def)
  then show ?thesis by (simp add: m)
qed

subsection \<open>The keys of a metric dictionary\<close>

lemma calc_keys:
  assumes "calculate_performance_metrics returns b = Inr m"
  shows "take 9 (map fst m) =
           [''total_return'', ''annualized_return'', ''volatility'', ''sharpe_ratio'',
            ''sortino_ratio'', ''max_drawdown'', ''win_rate'', ''best_day'', ''worst_day'']"
    and "set (drop 9 (map fst m)) \<subseteq>
           {''correlation_to_benchmark'', ''tracking_error'', ''information_ratio'', ''alpha''}"
proof -
  have ne: "returns \<noteq> []" using assms by (cases returns) auto
  show "take 9 (map fst m) =
           [''total_return'', ''annualized_return'', ''volatility'', ''sharpe_ratio'',
            ''sortino_ratio'', ''max_drawdown'', ''win_rate'', ''best_day'', ''worst_day'']"
    using assms unfolding calc_Inr_eq[OF ne] by auto
  show "set (drop 9 (map fst m)) \<subseteq>
           {''correlation_to_benchmark'', ''tracking_error'', ''information_ratio'', ''alpha''}"
  proof -
    have "drop 9 (map fst m) = map fst (benchmark_entries returns
            (prod_list (map (\<lambda>r. 1 + r) (series_values returns)) - 1) b)"
      using assms unfolding calc_Inr_eq[OF ne] by auto
    then show ?thesis
      using benchmark_entries_keys[of returns
            "prod_list (map (\<lambda>r. 1 + r) (series_values returns)) - 1" b]
      by simp
  qed
qed

lemma calc_no_downside_entry:
  assumes "calculate_performance_metrics returns b = Inr m"
  shows "map_of m ''downside_volatility'' = None"
proof -
  have "''downside_volatility'' \<notin> set (map fst m)"
  proof
    assume "''downside_volatility'' \<in> set (map fst m)"
    then have "''downside_volatility'' \<in> set (take 9 (map fst m)) \<union> set (drop 9 (map fst m))"
      by (metis append_take_drop_id set_append)
    then show False
      using calc_keys(2)[OF assms] unfolding calc_keys(1)[OF assms] by auto
  qed
  then show ?thesis by (simp add: map_of_eq_None_iff)
qed

lemma calc_sortino:
  assumes "calculate_performance_metrics returns b = Inr m"
  shows "map_of m ''sortino_ratio'' = Some (ratio_if_positive
              (map_option (\<lambda>p. p - 1)
                 (np_pow (prod_list (map (\<lambda>r. 1 + r) (series_values returns)))
                         (252 / real (length returns))))
              (downside_volatility (series_values returns)))"
proof -
  have ne: "returns \<noteq> []" using assms by (cases returns) auto
  show ?thesis using assms unfolding calc_Inr_eq[OF ne] by auto
qed

lemma downside_volatility_eq:
  "downside_volatility rs =
     (if filter (\<lambda>r. r < 0) rs = [] then Some 0
      else scale (sqrt 252) (std (filter (\<lambda>r. r < 0) rs)))"
  by (simp add: downside_volatility_def Let_def)

text \<open>
  Claim C7, as the code has it. The dictionary returned by the metric computation starts
  with the nine entries \<open>total_return\<close>, \<open>annualized_return\<close>, \<open>volatility\<close>, \<open>sharpe_ratio\<close>,
  \<open>sortino_ratio\<close>, \<open>max_drawdown\<close>, \<open>win_rate\<close>, \<open>best_day\<close>, \<open>worst_day\<close>, any further entry
  is one of the four benchmark entries, and there is no entry \<open>downside_volatility\<close>. The
  downside volatility is the sample deviation of the negative returns times the square
  root of 252, and 0 when no return is negative; it is computed on the way and enters
  the result only as the divisor of \<open>sortino_ratio\<close>.
\<close>

theorem metric_set_entries:
  "(returns \<noteq> [] \<longrightarrow>
      (\<exists>m. calculate_performance_metrics returns b = Inr m
         \<and> take 9 (map fst m) =
             [''total_return'', ''annualized_return'', ''volatility'', ''sharpe_ratio'',
              ''sortino_ratio'', ''max_drawdown'', ''win_rate'', ''best_day'', ''worst_day'']
         \<and> set (drop 9 (map fst m)) \<subseteq>
             {''correlation_to_benchmark'', ''tracking_error'', ''information_ratio'', ''alpha''}
         \<and> map_of m ''downside_volatility'' = None
         \<and> map_of m ''sortino_ratio'' =
             Some (ratio_if_positive
                    (map_option (\<lambda>p. p - 1)
                       (np_pow (prod_list (map (\<lambda>r. 1 + r) (series_values returns)))
                               (252 / real (length returns))))
                    (downside_volatility (series_values returns)))))
   \<and> downside_volatility (series_values returns) =
        (if filter (\<lambda>r. r < 0) (series_values returns) = [] then Some 0
         else scale (sqrt 252) (std (filter (\<lambda>r. r < 0) (series_values returns))))"
proof (intro conjI impI)
  assume "returns \<noteq> []"
  then obtain m where m: "calculate_performance_metrics returns b = Inr m"
    using calc_Inr_ex by blast
  show "\<exists>m. calculate_performance_metrics returns b = Inr m
         \<and> take 9 (map fst m) =
             [''total_return'', ''annualized_return'', ''volatility'', ''sharpe_ratio'',
              ''sortino_ratio'', ''max_drawdown'', ''win_rate'', ''best_day'', ''worst_day'']
         \<and> set (drop 9 (map fst m)) \<subseteq>
             {''correlation_to_benchmark'', ''tracking_error'', ''information_ratio'', ''alpha''}
         \<and> map_of m ''downside_volatility'' = None
         \<and> map_of m ''sortino_ratio'' =
             Some (ratio_if_positive
                    (map_option (\<lambda>p. p - 1)
                       (np_pow (prod_list (map (\<lambda>r. 1 + r) (series_values returns)))
                               (252 / real (length returns))))
                    (downside_volatility (series_values returns)))"
    by (intro exI[of _ m] conjI m calc_keys[OF m] calc_no_downside_entry[OF m] calc_sortino[OF m])
next
  show "downside_volatility (series_values returns) =
        (if filter (\<lambda>r. r < 0) (series_values returns) = [] then Some 0
         else scale (sqrt 252) (std (filter (\<lambda>r. r < 0) (series_values returns))))"
    by (rule downside_volatility_eq)
qed

theorem metric_set_entries_witness:
  "[(11, 1 / 100 :: real), (12, - 1 / 50)] \<noteq> []
   \<and> (\<exists>m. calculate_performance_metrics [(11, 1 / 100), (12, - 1 / 50)] None = Inr m
         \<and> take 9 (map fst m) =
             [''total_return'', ''annualized_return'', ''volatility'', ''sharpe_ratio'',
              ''sortino_ratio'', ''max_drawdown'', ''win_rate'', ''best_day'', ''worst_day'']
         \<and> map_of m ''downside_volatility'' = None)"
proof -
  have a: "[(11, 1 / 100 :: real), (12, - 1 / 50)] \<noteq> []" by simp
  from mp[OF conjunct1[OF metric_set_entries[of "[(11, 1 / 100), (12, - 1 / 50)]" None]] a]
  obtain m where "calculate_performance_metrics [(11, 1 / 100), (12, - 1 / 50)] None = Inr m"
    "take 9 (map fst m) =
             [''total_return'', ''annualized_return'', ''volatility'', ''sharpe_ratio'',
              ''sortino_ratio'', ''max_drawdown'', ''win_rate'', ''best_day'', ''worst_day'']"
    "map_of m ''downside_volatility'' = None"
    by (elim exE conjE)
  then show ?thesis using a by (intro conjI exI[of _ m])
qed

theorem downside_entry_counterexample:
  "\<not> isl (calculate_performance_metrics [(11, 1 / 100), (12, - 1 / 50)] None)
   \<and> map_of (projr (calculate_performance_metrics [(11, 1 / 100), (12, - 1 / 50)] None))
        ''downside_volatility'' = None"
proof -
  obtain m where m: "calculate_performance_metrics [(11, 1 / 100), (12, - 1 / 50)] None = Inr m"
    using calc_Inr_ex[of "[(11, 1 / 100), (12, - 1 / 50)]" None] by auto
  show ?thesis unfolding m using calc_no_downside_entry[OF m] by simp
qed

subsection \<open>Renormalising the weights\<close>

lemma sum_list_divide: "sum_list (map (\<lambda>p. snd p / s) ws) = sum_list (map snd ws) / (s::real)"
  by (induction ws) (auto simp: add_divide_distrib)

lemma normalized_sum:
  assumes "sum_list (map snd ws) \<noteq> (0::real)"
  shows "sum_list (map snd (map (\<lambda>(k, v). (k, v / sum_list (map snd ws))) ws)) = 1"
proof -
  have "map snd (map (\<lambda>(k, v). (k, v / sum_list (map snd ws))) ws)
        = map (\<lambda>p. snd p / sum_list (map snd ws)) ws"
    by (simp add: case_prod_unfold comp_def)
  then have "sum_list (map snd (map (\<lambda>(k, v). (k, v / sum_list (map snd ws))) ws))
        = sum_list (map snd ws) / sum_list (map snd ws)"
    by (simp only: sum_list_divide)
  then show ?thesis using assms by simp
qed

lemma normalize_weights_far:
  assumes "ws \<noteq> []" "sum_list (map snd ws) \<noteq> 0" "\<bar>sum_list (map snd ws) - 1\<bar> > 0.01"
  shows "normalize_weights ws = Inr (map (\<lambda>(k, v). (k, v / sum_list (map snd ws))) ws)"
  using assms by (simp add: normalize_weights_def Let_def)

lemma normalize_weights_near:
  assumes "\<bar>sum_list (map snd ws) - 1\<bar> \<le> 0.01"
  shows "normalize_weights ws = Inr ws"
  using assms by (simp add: normalize_weights_def Let_def)

lemma normalize_weights_keys:
  "normalize_weights ws = Inr w \<Longrightarrow> map fst w = map fst ws"
  by (auto simp: normalize_weights_def Let_def case_prod_unfold split: if_splits)

lemma backtest_weighted_ex:
  assumes "normalize_weights ws = Inr w" "rows (return_matrix yf (map fst w) sd ed bm) \<noteq> []"
  shows "\<exists>res. backtest_weighted_portfolio ic yf ws sd ed bm = Inr (Some res)
     \<and> portfolio_weights res = Some w
     \<and> portfolio_returns res =
          map (\<lambda>(d, r). (d, sum_list (map2 (\<lambda>ticker x. x * get_weight w ticker)
                (columns (return_matrix yf (map fst w) sd ed bm)) r)))
            (rows (return_matrix yf (map fst w) sd ed bm))"
proof -
  let ?pf = "map (\<lambda>(d, r). (d, sum_list (map2 (\<lambda>ticker x. x * get_weight w ticker)
                (columns (return_matrix yf (map fst w) sd ed bm)) r)))
            (rows (return_matrix yf (map fst w) sd ed bm))"
  have ne: "?pf \<noteq> []" using assms(2) by simp
  obtain res where r: "build_results ic (price_matrix yf (map fst w) sd ed bm)
       (return_matrix yf (map fst w) sd ed bm) ?pf
       (benchmark_frame yf (map fst w) sd ed bm) (Some w) sd ed = Inr (Some res)"
    using build_results_ex[OF ne assms(2)] by blast
  show ?thesis
    unfolding backtest_weighted_build[OF assms]
    using r build_results_Some(1,4)[OF r] by (intro exI[of _ res]) simp
qed

text \<open>
  Claim C3, as the code has it. Let \<open>s\<close> be the sum of a non-empty weight mapping. When
  \<open>s\<close> is not zero and \<open>|s - 1|\<close> exceeds 0.01, every weight \<open>w\<close> is replaced by \<open>w / s\<close>:
  the new weights sum to 1 and every ratio of two weights is kept. When \<open>|s - 1|\<close> stays
  below 0.01 the weights are left as they are. The weights so obtained are the ones the
  weighted backtest uses for the portfolio returns and reports in its result. Doubles are
  modelled as reals, so the two cases are stated for sums that are farther than \<open>10\<^sup>-\<^sup>9\<close>
  from the threshold, where rounding cannot change the comparison. (For \<open>s = 0\<close> the
  division raises.)
\<close>

theorem weights_renormalized:
  "(ws \<noteq> [] \<and> sum_list (map snd ws) \<noteq> 0
      \<and> 0.01 + 1 / 10 ^ 9 < \<bar>sum_list (map snd ws) - 1\<bar> \<longrightarrow>
        normalize_weights ws = Inr (map (\<lambda>(k, v). (k, v / sum_list (map snd ws))) ws)
      \<and> sum_list (map snd (map (\<lambda>(k, v). (k, v / sum_list (map snd ws))) ws)) = 1
      \<and> (\<forall>i < length ws. \<forall>j < length ws. snd (ws ! j) \<noteq> 0 \<longrightarrow>
            (snd (ws ! i) / sum_list (map snd ws)) / (snd (ws ! j) / sum_list (map snd ws))
              = snd (ws ! i) / snd (ws ! j)))
   \<and> (\<bar>sum_list (map snd ws) - 1\<bar> < 0.01 - 1 / 10 ^ 9 \<longrightarrow> normalize_weights ws = Inr ws)
   \<and> (normalize_weights ws = Inr w \<and> nonzero_closes yf sd ed (map fst w @ [bm])
        \<and> rows (return_matrix yf (map fst w) sd ed bm) \<noteq> [] \<longrightarrow>
        (\<exists>res. backtest_weighted_portfolio ic yf ws sd ed bm = Inr (Some res)
           \<and> portfolio_weights res = Some w
           \<and> portfolio_returns res =
                map (\<lambda>(d, r). (d, sum_list (map2 (\<lambda>ticker x. x * get_weight w ticker)
                      (columns (return_matrix yf (map fst w) sd ed bm)) r)))
                  (rows (return_matrix yf (map fst w) sd ed bm))))"
proof (intro conjI impI allI)
  assume a: "ws \<noteq> [] \<and> sum_list (map snd ws) \<noteq> 0
      \<and> 0.01 + 1 / 10 ^ 9 < \<bar>sum_list (map snd ws) - 1\<bar>"
  then have far: "\<bar>sum_list (map snd ws) - 1\<bar> > 0.01" by simp
  show "normalize_weights ws = Inr (map (\<lambda>(k, v). (k, v / sum_list (map snd ws))) ws)"
    using a far by (intro normalize_weights_far) simp_all
  show "sum_list (map snd (map (\<lambda>(k, v). (k, v / sum_list (map snd ws))) ws)) = 1"
    using a by (intro normalized_sum) simp
  fix i j
  assume "i < length ws" "j < length ws" "snd (ws ! j) \<noteq> 0"
  then show "(snd (ws ! i) / sum_list (map snd ws)) / (snd (ws ! j) / sum_list (map snd ws))
              = snd (ws ! i) / snd (ws ! j)"
    using a by simp
next
  assume "\<bar>sum_list (map snd ws) - 1\<bar> < 0.01 - 1 / 10 ^ 9"
  then have "\<bar>sum_list (map snd ws) - 1\<bar> \<le> 0.01" by simp
  then show "normalize_weights ws = Inr ws" by (rule normalize_weights_near)
next
  assume a: "normalize_weights ws = Inr w \<and> nonzero_closes yf sd ed (map fst w @ [bm])
        \<and> rows (return_matrix yf (map fst w) sd ed bm) \<noteq> []"
  then have n: "normalize_weights ws = Inr w"
    and ne: "rows (return_matrix yf (map fst w) sd ed bm) \<noteq> []" by simp_all
  show "\<exists>res. backtest_weighted_portfolio ic yf ws sd ed bm = Inr (Some res)
           \<and> portfolio_weights res = Some w
           \<and> portfolio_returns res =
                map (\<lambda>(d, r). (d, sum_list (map2 (\<lambda>ticker x. x * get_weight w ticker)
                      (columns (return_matrix yf (map fst w) sd ed bm)) r)))
                  (rows (return_matrix yf (map fst w) sd ed bm))"
    by (rule backtest_weighted_ex[OF n ne])
qed

theorem zero_sum_weights_counterexample:
  "normalize_weights [(''A'', 0)] = Inl ZeroDivisionError
   \<and> backtest_weighted_portfolio 100000 yf_two [(''A'', 0)] ''2024-01-01'' ''2024-12-31'' ''SPY''
       = Inl ZeroDivisionError"
  by (simp add: backtest_weighted_portfolio_def normalize_weights_def)

theorem weights_renormalized_witness:
  "([(''A'', 1/2), (''B'', 47/100 :: real)] \<noteq> []
      \<and> sum_list (map snd [(''A'', 1/2), (''B'', 47/100 :: real)]) \<noteq> 0
      \<and> 0.01 + 1 / 10 ^ 9 < \<bar>sum_list (map snd [(''A'', 1/2), (''B'', 47/100 :: real)]) - 1\<bar>)
   \<and> normalize_weights [(''A'', 1/2), (''B'', 47/100)] = Inr [(''A'', 50/97), (''B'', 47/97)]
   \<and> sum_list (map snd [(''A'', 50/97), (''B'', 47/97 :: real)]) = 1
   \<and> \<bar>sum_list (map snd [(''A'', 1/2), (''B'', 1/2 :: real)]) - 1\<bar> < 0.01 - 1 / 10 ^ 9
   \<and> normalize_weights [(''A'', 1/2), (''B'', 1/2)] = Inr [(''A'', 1/2), (''B'', 1/2)]
   \<and> nonzero_closes yf_two ''2024-01-01'' ''2024-12-31'' [''A'', ''B'', ''SPY'']
   \<and> rows (return_matrix yf_two [''A'', ''B''] ''2024-01-01'' ''2024-12-31'' ''SPY'') \<noteq> []
   \<and> (\<exists>res. backtest_weighted_portfolio 100000 yf_two [(''A'', 1/2), (''B'', 47/100)]
                ''2024-01-01'' ''2024-12-31'' ''SPY'' = Inr (Some res)
          \<and> portfolio_weights res = Some [(''A'', 50/97), (''B'', 47/97)]
          \<and> portfolio_returns res = [(12, 5/97), (13, - 3/970), (14, - 47/485)])"
proof -
  let ?sd = "''2024-01-01''" and ?ed = "''2024-12-31''"
  let ?ws = "[(''A'', 1/2), (''B'', 47/100 :: real)]"
  let ?w = "[(''A'', 50/97), (''B'', 47/97 :: real)]"
  let ?h = "[(''A'', 1/2), (''B'', 1/2 :: real)]"
  note i1 = weights_renormalized[of ?ws ?w yf_two ?sd ?ed "''SPY''" 100000]
  note i2 = weights_renormalized[of ?h ?h yf_two ?sd ?ed "''SPY''" 100000]
  have h1: "?ws \<noteq> [] \<and> sum_list (map snd ?ws) \<noteq> 0
      \<and> 0.01 + 1 / 10 ^ 9 < \<bar>sum_list (map snd ?ws) - 1\<bar>"
    by simp
  from mp[OF conjunct1[OF i1] h1]
  have n1: "normalize_weights ?ws = Inr ?w" and s1: "sum_list (map snd ?w) = 1"
    by simp_all
  have h2: "\<bar>sum_list (map snd ?h) - 1\<bar> < 0.01 - 1 / 10 ^ 9" by simp
  have n2: "normalize_weights ?h = Inr ?h"
    by (rule mp[OF conjunct1[OF conjunct2[OF i2]] h2])
  have nz: "nonzero_closes yf_two ?sd ?ed [''A'', ''B'', ''SPY'']"
    by (rule nonzero_closes_two)
  have ne: "rows (return_matrix yf_two [''A'', ''B''] ?sd ?ed ''SPY'') \<noteq> []"
    by (simp add: return_matrix_two)
  have h3: "normalize_weights ?ws = Inr ?w \<and> nonzero_closes yf_two ?sd ?ed (map fst ?w @ [''SPY''])
        \<and> rows (return_matrix yf_two (map fst ?w) ?sd ?ed ''SPY'') \<noteq> []"
    using n1 nz ne by simp
  from mp[OF conjunct2[OF conjunct2[OF i1]] h3]
  obtain res where
    r: "backtest_weighted_portfolio 100000 yf_two ?ws ?sd ?ed ''SPY'' = Inr (Some res)"
    and pw: "portfolio_weights res = Some ?w"
    and pr: "portfolio_returns res =
                map (\<lambda>(d, r). (d, sum_list (map2 (\<lambda>ticker x. x * get_weight ?w ticker)
                      (columns (return_matrix yf_two (map fst ?w) ?sd ?ed ''SPY'')) r)))
                  (rows (return_matrix yf_two (map fst ?w) ?sd ?ed ''SPY''))"
    by (elim exE conjE)
  have pr': "portfolio_returns res = [(12, 5/97), (13, - 3/970), (14, - 47/485)]"
    unfolding pr by (simp add: return_matrix_two get_weight_def)
  have E: "\<exists>res. backtest_weighted_portfolio 100000 yf_two ?ws ?sd ?ed ''SPY'' = Inr (Some res)
          \<and> portfolio_weights res = Some ?w
          \<and> portfolio_returns res = [(12, 5/97), (13, - 3/970), (14, - 47/485)]"
    by (intro exI[of _ res] conjI r pw pr')
  show ?thesis
    by (intro conjI h1[THEN conjunct1] h1[THEN conjunct2, THEN conjunct1]
        h1[THEN conjunct2, THEN conjunct2] n1 s1 h2 n2 nz ne E)
qed

subsection \<open>The fields of a result\<close>

lemma build_results_fields:
  assumes "pf \<noteq> []" "rows R \<noteq> []"
  shows "\<exists>res. build_results ic P R pf bd w sd ed = Inr (Some res)
     \<and> portfolio_returns res = pf
     \<and> portfolio_value res = value_trajectory ic pf
     \<and> tickers res = columns P
     \<and> trading_days res = length (rows P)
     \<and> portfolio_weights res = w
     \<and> correlation_matrix res = corr_df R
     \<and> individual_loop [] (labelled_columns R) = Inr (individual_metrics res)
     \<and> calculate_performance_metrics pf (map_option calculate_returns bd)
           = Inr (portfolio_metrics res)"
proof -
  obtain res where r: "build_results ic P R pf bd w sd ed = Inr (Some res)"
    using build_results_ex[OF assms] by blast
  show ?thesis
    by (intro exI[of _ res] conjI r build_results_Some(1-8)[OF r])
qed

lemma backtest_equal_fields:
  assumes "rows (return_matrix yf ts sd ed bm) \<noteq> []"
  shows "\<exists>res. backtest_equal_weight_portfolio ic yf ts sd ed bm = Inr (Some res)
     \<and> portfolio_returns res = map (\<lambda>(d, r). (d, mean r)) (rows (return_matrix yf ts sd ed bm))
     \<and> portfolio_value res =
          value_trajectory ic (map (\<lambda>(d, r). (d, mean r)) (rows (return_matrix yf ts sd ed bm)))
     \<and> tickers res = columns (price_matrix yf ts sd ed bm)
     \<and> trading_days res = length (rows (price_matrix yf ts sd ed bm))
     \<and> portfolio_weights res = None
     \<and> correlation_matrix res = corr_df (return_matrix yf ts sd ed bm)
     \<and> individual_loop [] (labelled_columns (return_matrix yf ts sd ed bm))
           = Inr (individual_metrics res)
     \<and> calculate_performance_metrics
           (map (\<lambda>(d, r). (d, mean r)) (rows (return_matrix yf ts sd ed bm)))
           (map_option calculate_returns (benchmark_frame yf ts sd ed bm))
           = Inr (portfolio_metrics res)"
proof -
  have ne: "map (\<lambda>(d, r). (d, mean r)) (rows (return_matrix yf ts sd ed bm)) \<noteq> []"
    using assms by simp
  show ?thesis
    unfolding backtest_equal_build[OF assms]
    by (rule build_results_fields[OF ne assms])
qed

lemma backtest_weighted_fields:
  assumes "normalize_weights ws = Inr w" "rows (return_matrix yf (map fst w) sd ed bm) \<noteq> []"
  shows "\<exists>res. backtest_weighted_portfolio ic yf ws sd ed bm = Inr (Some res)
     \<and> portfolio_returns res =
          map (\<lambda>(d, r). (d, sum_list (map2 (\<lambda>ticker x. x * get_weight w ticker)
                (columns (return_matrix yf (map fst w) sd ed bm)) r)))
            (rows (return_matrix yf (map fst w) sd ed bm))
     \<and> portfolio_value res =
          value_trajectory ic
            (map (\<lambda>(d, r). (d, sum_list (map2 (\<lambda>ticker x. x * get_weight w ticker)
                (columns (return_matrix yf (map fst w) sd ed bm)) r)))
              (rows (return_matrix yf (map fst w) sd ed bm)))
     \<and> tickers res = columns (price_matrix yf (map fst w) sd ed bm)
     \<and> trading_days res = length (rows (price_matrix yf (map fst w) sd ed bm))
     \<and> portfolio_weights res = Some w
     \<and> correlation_matrix res = corr_df (return_matrix yf (map fst w) sd ed bm)
     \<and> individual_loop [] (labelled_columns (return_matrix yf (map fst w) sd ed bm))
           = Inr (individual_metrics res)
     \<and> calculate_performance_metrics
           (map (\<lambda>(d, r). (d, sum_list (map2 (\<lambda>ticker x. x * get_weight w ticker)
                (columns (return_matrix yf (map fst w) sd ed bm)) r)))
              (rows (return_matrix yf (map fst w) sd ed bm)))
           (map_option calculate_returns (benchmark_frame yf (map fst w) sd ed bm))
           = Inr (portfolio_metrics res)"
proof -
  have ne: "map (\<lambda>(d, r). (d, sum_list (map2 (\<lambda>ticker x. x * get_weight w ticker)
                (columns (return_matrix yf (map fst w) sd ed bm)) r)))
              (rows (return_matrix yf (map fst w) sd ed bm)) \<noteq> []"
    using assms(2) by simp
  show ?thesis
    unfolding backtest_weighted_build[OF assms]
    by (rule build_results_fields[OF ne assms(2)])
qed

subsection \<open>Disjoint date ranges\<close>

lemma fetch_disjoint:
  "fetch_historical_data yf_disjoint [''A'', ''B'', ''SPY''] sd ed =
     [(''A'', [(11, 10), (12, 11)]), (''B'', [(21, 20), (22, 22)])]"
  by (simp add: fetch_historical_data_def yf_disjoint_def)

lemma price_matrix_disjoint:
  "price_matrix yf_disjoint [''A'', ''B''] sd ed ''SPY'' =
     \<lparr>columns = [''A'', ''B''], rows = [(21, [11, 20]), (22, [11, 22])]\<rparr>"
  by (simp add: price_matrix_def fetch_disjoint DataFrame_def ffill_def dropna_def
      List.map_filter_def)

lemma return_matrix_disjoint:
  "return_matrix yf_disjoint [''A'', ''B''] sd ed ''SPY'' =
     \<lparr>columns = [''A'', ''B''], rows = [(22, [0, 1/10])]\<rparr>"
  by (simp add: return_matrix_def price_matrix_disjoint pct_change_df_def dropna_def
      List.map_filter_def)

text \<open>
  Claim C2. Ticker A trades on days 11 and 12 only and ticker B on days 21 and 22 only,
  so no date is common to both. The forward fill of line 187 carries A's last close into
  B's days before \<open>dropna\<close> runs, the price matrix keeps the two days of B, and both
  backtests return a populated result over them, in which A has the fabricated return 0,
  instead of the empty dictionary.
\<close>

theorem disjoint_ranges_give_a_result:
  "map_option tickers (returned (backtest_equal_weight_portfolio 100000 yf_disjoint
       [''A'', ''B''] ''2024-01-01'' ''2024-12-31'' ''SPY'')) = Some [''A'', ''B'']
   \<and> map_option trading_days (returned (backtest_equal_weight_portfolio 100000 yf_disjoint
       [''A'', ''B''] ''2024-01-01'' ''2024-12-31'' ''SPY'')) = Some 2
   \<and> map_option portfolio_returns (returned (backtest_equal_weight_portfolio 100000 yf_disjoint
       [''A'', ''B''] ''2024-01-01'' ''2024-12-31'' ''SPY'')) = Some [(22, 1/20)]
   \<and> map_option tickers (returned (backtest_weighted_portfolio 100000 yf_disjoint
       [(''A'', 1/2), (''B'', 1/2)] ''2024-01-01'' ''2024-12-31'' ''SPY'')) = Some [''A'', ''B'']
   \<and> map_option trading_days (returned (backtest_weighted_portfolio 100000 yf_disjoint
       [(''A'', 1/2), (''B'', 1/2)] ''2024-01-01'' ''2024-12-31'' ''SPY'')) = Some 2
   \<and> map_option portfolio_returns (returned (backtest_weighted_portfolio 100000 yf_disjoint
       [(''A'', 1/2), (''B'', 1/2)] ''2024-01-01'' ''2024-12-31'' ''SPY'')) = Some [(22, 1/20)]
   \<and> return_matrix yf_disjoint [''A'', ''B''] ''2024-01-01'' ''2024-12-31'' ''SPY''
       = \<lparr>columns = [''A'', ''B''], rows = [(22, [0, 1/10])]\<rparr>"
proof -
  let ?sd = "''2024-01-01''" and ?ed = "''2024-12-31''"
  let ?h = "[(''A'', 1/2), (''B'', 1/2 :: real)]"
  have ne: "rows (return_matrix yf_disjoint [''A'', ''B''] ?sd ?ed ''SPY'') \<noteq> []"
    by (simp add: return_matrix_disjoint)
  have ne': "rows (return_matrix yf_disjoint (map fst ?h) ?sd ?ed ''SPY'') \<noteq> []"
    by (simp add: return_matrix_disjoint)
  from backtest_equal_fields[OF ne, of 100000]
  obtain res where
    r: "backtest_equal_weight_portfolio 100000 yf_disjoint [''A'', ''B''] ?sd ?ed ''SPY''
          = Inr (Some res)"
    and f: "portfolio_returns res = map (\<lambda>(d, r). (d, mean r))
              (rows (return_matrix yf_disjoint [''A'', ''B''] ?sd ?ed ''SPY''))"
       "tickers res = columns (price_matrix yf_disjoint [''A'', ''B''] ?sd ?ed ''SPY'')"
       "trading_days res = length (rows (price_matrix yf_disjoint [''A'', ''B''] ?sd ?ed ''SPY''))"
    by (elim exE conjE)
  from backtest_weighted_fields[OF normalize_halves ne', of 100000]
  obtain res' where
    r': "backtest_weighted_portfolio 100000 yf_disjoint ?h ?sd ?ed ''SPY'' = Inr (Some res')"
    and f': "portfolio_returns res' =
          map (\<lambda>(d, r). (d, sum_list (map2 (\<lambda>ticker x. x * get_weight ?h ticker)
                (columns (return_matrix yf_disjoint (map fst ?h) ?sd ?ed ''SPY'')) r)))
            (rows (return_matrix yf_disjoint (map fst ?h) ?sd ?ed ''SPY''))"
       "tickers res' = columns (price_matrix yf_disjoint (map fst ?h) ?sd ?ed ''SPY'')"
       "trading_days res' = length (rows (price_matrix yf_disjoint (map fst ?h) ?sd ?ed ''SPY''))"
    by (elim exE conjE)
  show ?thesis
    unfolding r r'
    by (simp add: returned_def f f' return_matrix_disjoint price_matrix_disjoint mean_def
        get_weight_def)
qed

subsection \<open>Which tickers reach the price matrix\<close>

lemma fetch_loop_keys:
  "fst ` set (fetch_loop yf sd ed acc ts) = fst ` set acc \<union> {t \<in> set ts. has_data yf sd ed t}"
proof (induction ts arbitrary: acc)
  case Nil
  then show ?case by simp
next
  case (Cons t ts)
  show ?case
  proof (cases "yf t sd ed")
    case Raised
    then show ?thesis using Cons.IH[of acc] by (auto simp: has_data_def)
  next
    case (History df)
    show ?thesis
    proof (cases "df = []")
      case True
      then show ?thesis using History Cons.IH[of acc] by (auto simp: has_data_def)
    next
      case False
      then show ?thesis
        using History Cons.IH[of "AList.update t df acc"]
        by (auto simp: has_data_def dom_update)
    qed
  qed
qed

lemma fetch_loop_distinct:
  "distinct (map fst acc) \<Longrightarrow> distinct (map fst (fetch_loop yf sd ed acc ts))"
proof (induction ts arbitrary: acc)
  case Nil
  then show ?case by simp
next
  case (Cons t ts)
  then show ?case
    by (cases "yf t sd ed") (auto simp: distinct_update)
qed

lemma price_matrix_columns:
  "columns (price_matrix yf ts sd ed bm)
     = map fst (AList.delete bm (fetch_historical_data yf (ts @ [bm]) sd ed))"
  by (simp add: price_matrix_def Let_def dropna_def ffill_def DataFrame_def)

lemma price_matrix_tickers:
  "set (columns (price_matrix yf ts sd ed bm)) = {t \<in> set ts. t \<noteq> bm \<and> has_data yf sd ed t}"
proof -
  have "set (columns (price_matrix yf ts sd ed bm))
        = fst ` set (fetch_historical_data yf (ts @ [bm]) sd ed) - {bm}"
    by (simp add: price_matrix_columns delete_keys)
  also have "\<dots> = {t \<in> set ts. t \<noteq> bm \<and> has_data yf sd ed t}"
    by (auto simp: fetch_historical_data_def fetch_loop_keys)
  finally show ?thesis .
qed

lemma price_matrix_distinct: "distinct (columns (price_matrix yf ts sd ed bm))"
  by (simp add: price_matrix_columns distinct_delete fetch_historical_data_def fetch_loop_distinct)

lemma fetch_partial:
  "fetch_historical_data yf_partial [''A'', ''B'', ''SPY''] sd ed =
     [(''A'', [(11, 100), (12, 110), (13, 99)]), (''SPY'', [(11, 400), (12, 404), (13, 400)])]"
  by (simp add: fetch_historical_data_def yf_partial_def)

lemma price_matrix_partial:
  "price_matrix yf_partial [''A'', ''B''] sd ed ''SPY'' =
     \<lparr>columns = [''A''], rows = [(11, [100]), (12, [110]), (13, [99])]\<rparr>"
  by (simp add: price_matrix_def fetch_partial DataFrame_def ffill_def dropna_def
      List.map_filter_def)

lemma return_matrix_partial:
  "return_matrix yf_partial [''A'', ''B''] sd ed ''SPY'' =
     \<lparr>columns = [''A''], rows = [(12, [1/10]), (13, [- 1/10])]\<rparr>"
  by (simp add: return_matrix_def price_matrix_partial pct_change_df_def dropna_def
      List.map_filter_def)

text \<open>
  Claim C6, as the code has it. A ticker for which the provider raises or returns an empty
  table is left out of the dictionary by the acquisition loop, and the backtest goes on
  with the others: whenever the tickers that remain have a non-empty aligned return
  matrix, the equal-weight backtest returns a populated result, and its ticker list
  consists of exactly the requested tickers, other than the benchmark, that have data.
\<close>

theorem missing_tickers_are_skipped:
  "fst ` set (fetch_historical_data yf ts sd ed) = {t \<in> set ts. has_data yf sd ed t}
   \<and> (nonzero_closes yf sd ed (ts @ [bm]) \<and> rows (return_matrix yf ts sd ed bm) \<noteq> [] \<longrightarrow>
        (\<exists>res. backtest_equal_weight_portfolio ic yf ts sd ed bm = Inr (Some res)
           \<and> set (tickers res) = {t \<in> set ts. t \<noteq> bm \<and> has_data yf sd ed t}
           \<and> distinct (tickers res)))"
proof (intro conjI impI)
  show "fst ` set (fetch_historical_data yf ts sd ed) = {t \<in> set ts. has_data yf sd ed t}"
    by (simp add: fetch_historical_data_def fetch_loop_keys)
next
  assume "nonzero_closes yf sd ed (ts @ [bm]) \<and> rows (return_matrix yf ts sd ed bm) \<noteq> []"
  then have ne: "rows (return_matrix yf ts sd ed bm) \<noteq> []" by simp
  from backtest_equal_fields[OF ne, of ic]
  obtain res where r: "backtest_equal_weight_portfolio ic yf ts sd ed bm = Inr (Some res)"
    and t: "tickers res = columns (price_matrix yf ts sd ed bm)"
    by (elim exE conjE)
  have "set (tickers res) = {t \<in> set ts. t \<noteq> bm \<and> has_data yf sd ed t}"
    unfolding t by (rule price_matrix_tickers)
  moreover have "distinct (tickers res)"
    unfolding t by (rule price_matrix_distinct)
  ultimately show "\<exists>res. backtest_equal_weight_portfolio ic yf ts sd ed bm = Inr (Some res)
           \<and> set (tickers res) = {t \<in> set ts. t \<noteq> bm \<and> has_data yf sd ed t}
           \<and> distinct (tickers res)"
    using r by (intro exI[of _ res] conjI)
qed

theorem missing_tickers_are_skipped_witness:
  "nonzero_closes yf_partial ''2024-01-01'' ''2024-12-31'' ([''A'', ''B''] @ [''SPY''])
   \<and> rows (return_matrix yf_partial [''A'', ''B''] ''2024-01-01'' ''2024-12-31'' ''SPY'') \<noteq> []
   \<and> \<not> has_data yf_partial ''2024-01-01'' ''2024-12-31'' ''B''
   \<and> (\<exists>res. backtest_equal_weight_portfolio 100000 yf_partial [''A'', ''B'']
                ''2024-01-01'' ''2024-12-31'' ''SPY'' = Inr (Some res)
          \<and> set (tickers res) = {''A''})"
proof -
  let ?sd = "''2024-01-01''" and ?ed = "''2024-12-31''"
  note inst = missing_tickers_are_skipped[of yf_partial "[''A'', ''B'']" ?sd ?ed "''SPY''" 100000]
  have nz: "nonzero_closes yf_partial ?sd ?ed ([''A'', ''B''] @ [''SPY''])"
    by (simp add: nonzero_closes_def yf_partial_def)
  have ne: "rows (return_matrix yf_partial [''A'', ''B''] ?sd ?ed ''SPY'') \<noteq> []"
    by (simp add: return_matrix_partial)
  have nb: "\<not> has_data yf_partial ?sd ?ed ''B''"
    by (simp add: has_data_def yf_partial_def)
  from mp[OF conjunct2[OF inst] conjI[OF nz ne]]
  obtain res where
    r: "backtest_equal_weight_portfolio 100000 yf_partial [''A'', ''B''] ?sd ?ed ''SPY''
          = Inr (Some res)"
    and t: "set (tickers res)
          = {t \<in> set [''A'', ''B'']. t \<noteq> ''SPY'' \<and> has_data yf_partial ?sd ?ed t}"
    by (elim exE conjE)
  have "set (tickers res) = {''A''}"
    unfolding t by (auto simp: has_data_def yf_partial_def)
  then have E: "\<exists>res. backtest_equal_weight_portfolio 100000 yf_partial [''A'', ''B'']
                ?sd ?ed ''SPY'' = Inr (Some res) \<and> set (tickers res) = {''A''}"
    using r by (intro exI[of _ res] conjI)
  show ?thesis by (intro conjI nz ne nb E)
qed

theorem partial_result_counterexample:
  "map_option tickers (returned (backtest_equal_weight_portfolio 100000 yf_partial
       [''A'', ''B''] ''2024-01-01'' ''2024-12-31'' ''SPY'')) = Some [''A'']
   \<and> map_option portfolio_returns (returned (backtest_equal_weight_portfolio 100000 yf_partial
       [''A'', ''B''] ''2024-01-01'' ''2024-12-31'' ''SPY'')) = Some [(12, 1/10), (13, - 1/10)]
   \<and> yf_partial ''B'' ''2024-01-01'' ''2024-12-31'' = Raised"
proof -
  let ?sd = "''2024-01-01''" and ?ed = "''2024-12-31''"
  have ne: "rows (return_matrix yf_partial [''A'', ''B''] ?sd ?ed ''SPY'') \<noteq> []"
    by (simp add: return_matrix_partial)
  from backtest_equal_fields[OF ne, of 100000]
  obtain res where
    r: "backtest_equal_weight_portfolio 100000 yf_partial [''A'', ''B''] ?sd ?ed ''SPY''
          = Inr (Some res)"
    and f: "portfolio_returns res = map (\<lambda>(d, r). (d, mean r))
              (rows (return_matrix yf_partial [''A'', ''B''] ?sd ?ed ''SPY''))"
       "tickers res = columns (price_matrix yf_partial [''A'', ''B''] ?sd ?ed ''SPY'')"
    by (elim exE conjE)
  show ?thesis
    unfolding r
    by (simp add: returned_def f return_matrix_partial price_matrix_partial mean_def
        yf_partial_def)
qed

subsection \<open>The benchmark does not reach the price matrix\<close>






lemma return_matrix_columns:
  "columns (return_matrix yf ts sd ed bm) = columns (price_matrix yf ts sd ed bm)"
  by (simp add: return_matrix_def dropna_def pct_change_df_def)

lemma labelled_columns_keys: "map fst (labelled_columns df) = columns df"
  by (simp add: labelled_columns_def comp_def map_nth)









subsection \<open>The shape of the return matrix\<close>

lemma ffill_rows_length:
  "length prev = k \<Longrightarrow> \<forall>(d, r) \<in> set rs. length r = k
   \<Longrightarrow> \<forall>(d, r) \<in> set (ffill_rows prev rs). length r = k"
proof (induction rs arbitrary: prev)
  case Nil
  then show ?case by simp
next
  case (Cons p rs)
  obtain d r where p: "p = (d, r)" by (cases p)
  let ?filled = "map2 (\<lambda>p c. case c of None \<Rightarrow> p | Some v \<Rightarrow> Some v) prev r"
  have r: "length r = k" using Cons.prems(2) p by simp
  then have f: "length ?filled = k" using Cons.prems(1) by simp
  have "\<forall>(d, r) \<in> set rs. length r = k" using Cons.prems(2) by simp
  from Cons.IH[OF f this] f show ?case by (simp add: p Let_def)
qed

lemma those_length: "those xs = Some ys \<Longrightarrow> length ys = length xs"
  by (induction xs arbitrary: ys) (auto split: option.splits)

lemma dropna_rows_length:
  assumes "\<forall>(d, r) \<in> set (rows df). length r = k"
  shows "\<forall>(d, r) \<in> set (rows (dropna df)). length r = k"
  using assms by (fastforce simp: dropna_def List.map_filter_def dest: those_length)

lemma pct_change_rows_length:
  "length prev = k \<Longrightarrow> \<forall>(d, r) \<in> set rs. length r = k
   \<Longrightarrow> \<forall>(d, r) \<in> set (pct_change_rows prev rs). length r = k"
proof (induction rs arbitrary: prev)
  case Nil
  then show ?case by simp
next
  case (Cons p rs)
  obtain d r where p: "p = (d, r)" by (cases p)
  have r: "length r = k" using Cons.prems(2) p by simp
  have "\<forall>(d, r) \<in> set rs. length r = k" using Cons.prems(2) by simp
  from Cons.IH[OF r this] r Cons.prems(1) show ?case by (simp add: p)
qed

lemma pct_change_df_rows_length:
  assumes "\<forall>(d, r) \<in> set (rows df). length r = k"
  shows "\<forall>(d, r) \<in> set (rows (pct_change_df df)). length r = k"
proof (cases "rows df")
  case Nil
  then show ?thesis by (simp add: pct_change_df_def)
next
  case (Cons p rest)
  obtain d r where p: "p = (d, r)" by (cases p)
  have "length r = k" "\<forall>(d, r) \<in> set rest. length r = k"
    using assms Cons p by auto
  then show ?thesis
    using pct_change_rows_length[of r k rest] by (auto simp: pct_change_df_def Cons p)
qed

lemma price_matrix_rows_length:
  "\<forall>(d, r) \<in> set (rows (price_matrix yf ts sd ed bm)).
      length r = length (columns (price_matrix yf ts sd ed bm))"
proof -
  let ?hd = "AList.delete bm (fetch_historical_data yf (ts @ [bm]) sd ed)"
  have "\<forall>(d, r) \<in> set (rows (DataFrame ?hd)). length r = length ?hd"
    by (auto simp: DataFrame_def)
  then have "\<forall>(d, r) \<in> set (rows (ffill (DataFrame ?hd))). length r = length ?hd"
    using ffill_rows_length[of "replicate (length ?hd) None" "length ?hd" "rows (DataFrame ?hd)"]
    by (simp add: ffill_def DataFrame_def)
  then have "\<forall>(d, r) \<in> set (rows (dropna (ffill (DataFrame ?hd)))). length r = length ?hd"
    by (rule dropna_rows_length)
  then show ?thesis
    by (simp add: price_matrix_columns) (simp add: price_matrix_def Let_def)
qed

lemma return_matrix_rows_length:
  "\<forall>(d, r) \<in> set (rows (return_matrix yf ts sd ed bm)).
      length r = length (columns (return_matrix yf ts sd ed bm))"
  unfolding return_matrix_columns
  unfolding return_matrix_def
  by (intro dropna_rows_length pct_change_df_rows_length price_matrix_rows_length)

subsection \<open>The per-instrument metrics\<close>

lemma update_new_key: "k \<notin> fst ` set al \<Longrightarrow> AList.update k v al = al @ [(k, v)]"
  by (induction al) auto

lemma individual_loop_result:
  assumes "individual_loop acc cols = Inr ims" "distinct (map fst cols)"
    "fst ` set acc \<inter> fst ` set cols = {}"
  shows "\<exists>new. ims = acc @ new
     \<and> list_all2 (\<lambda>(t, s) (t', m). t' = t \<and> calculate_performance_metrics s None = Inr m)
          cols new"
  using assms
proof (induction cols arbitrary: acc)
  case Nil
  then show ?case by simp
next
  case (Cons c cols)
  obtain t s where c: "c = (t, s)" by (cases c)
  from Cons.prems(1) c obtain m where
    m: "calculate_performance_metrics s None = Inr m"
    and l: "individual_loop (AList.update t m acc) cols = Inr ims"
    by (auto split: sum.splits)
  have tn: "t \<notin> fst ` set acc" using Cons.prems(3) c by auto
  have u: "AList.update t m acc = acc @ [(t, m)]" by (rule update_new_key[OF tn])
  have d: "distinct (map fst cols)" and tc: "t \<notin> fst ` set cols"
    using Cons.prems(2) c by auto
  have i: "fst ` set (acc @ [(t, m)]) \<inter> fst ` set cols = {}"
    using Cons.prems(3) tc c by auto
  from Cons.IH[OF l[unfolded u] d i] obtain new where
    n: "ims = (acc @ [(t, m)]) @ new"
    and a: "list_all2 (\<lambda>(t, s) (t', m). t' = t \<and> calculate_performance_metrics s None = Inr m)
          cols new"
    by blast
  show ?case
    by (rule exI[of _ "(t, m) # new"]) (simp add: n a c m)
qed

lemma individual_metrics_of_columns:
  assumes l: "individual_loop [] (labelled_columns R) = Inr ims" and d: "distinct (columns R)"
  shows "map fst ims = columns R"
    and "\<forall>i < length (columns R). \<exists>m. calculate_performance_metrics (column R i) None = Inr m
           \<and> map_of ims (columns R ! i) = Some m"
proof -
  have dl: "distinct (map fst (labelled_columns R))"
    using d by (simp only: labelled_columns_keys)
  from individual_loop_result[OF l dl]
  have a: "list_all2 (\<lambda>(t, s) (t', m). t' = t \<and> calculate_performance_metrics s None = Inr m)
          (labelled_columns R) ims"
    by simp
  have len: "length ims = length (columns R)"
    using list_all2_lengthD[OF a] by (simp add: labelled_columns_def)
  have nth: "fst (ims ! i) = columns R ! i
         \<and> calculate_performance_metrics (column R i) None = Inr (snd (ims ! i))"
    if "i < length (columns R)" for i
  proof -
    have "i < length (labelled_columns R)" using that by (simp add: labelled_columns_def)
    from list_all2_nthD[OF a this] that show ?thesis
      by (simp add: labelled_columns_def case_prod_unfold)
  qed
  show k: "map fst ims = columns R"
    using len nth by (intro nth_equalityI) simp_all
  show "\<forall>i < length (columns R). \<exists>m. calculate_performance_metrics (column R i) None = Inr m
           \<and> map_of ims (columns R ! i) = Some m"
  proof (intro allI impI)
    fix i assume i: "i < length (columns R)"
    have di: "distinct (map fst ims)" using d k by simp
    have "ims ! i \<in> set ims" using i len by simp
    then have "(columns R ! i, snd (ims ! i)) \<in> set ims"
      using nth[OF i] by (metis prod.collapse)
    then have "map_of ims (columns R ! i) = Some (snd (ims ! i))"
      using di by (rule map_of_is_SomeI[rotated])
    then show "\<exists>m. calculate_performance_metrics (column R i) None = Inr m
           \<and> map_of ims (columns R ! i) = Some m"
      using nth[OF i] by blast
  qed
qed

text \<open>
  Claim C4. Whenever the aligned return matrix of the equal-weight backtest is not empty,
  the backtest returns a result over the \<open>k \<ge> 1\<close> instruments of that matrix, every row
  of the matrix has \<open>k\<close> entries, and the portfolio return on each date is the sum of
  the row divided by \<open>k\<close>; the individual metrics have one entry per instrument, in the
  order of the tickers, and the entry of the \<open>i\<close>-th ticker is what the metric computation
  returns on the \<open>i\<close>-th column of the return matrix, without a benchmark.
\<close>

theorem equal_weight_is_row_mean:
  "nonzero_closes yf sd ed (ts @ [bm]) \<and> rows (return_matrix yf ts sd ed bm) \<noteq> [] \<longrightarrow>
     (\<exists>res. backtest_equal_weight_portfolio ic yf ts sd ed bm = Inr (Some res)
              \<and> tickers res = columns (return_matrix yf ts sd ed bm)
              \<and> 0 < length (tickers res)
              \<and> map fst (portfolio_returns res) = map fst (rows (return_matrix yf ts sd ed bm))
              \<and> (\<forall>t < length (rows (return_matrix yf ts sd ed bm)).
                    length (snd (rows (return_matrix yf ts sd ed bm) ! t)) = length (tickers res)
                  \<and> snd (portfolio_returns res ! t) =
                      sum_list (snd (rows (return_matrix yf ts sd ed bm) ! t))
                        / real (length (tickers res)))
              \<and> map fst (individual_metrics res) = tickers res
              \<and> (\<forall>i < length (tickers res).
                    \<exists>m. calculate_performance_metrics (column (return_matrix yf ts sd ed bm) i) None
                           = Inr m
                      \<and> map_of (individual_metrics res) (tickers res ! i) = Some m))"
proof
  assume "nonzero_closes yf sd ed (ts @ [bm]) \<and> rows (return_matrix yf ts sd ed bm) \<noteq> []"
  then have ne: "rows (return_matrix yf ts sd ed bm) \<noteq> []" by simp
  let ?R = "return_matrix yf ts sd ed bm"
  from backtest_equal_fields[OF ne, of ic]
  obtain res where r: "backtest_equal_weight_portfolio ic yf ts sd ed bm = Inr (Some res)"
    and pr: "portfolio_returns res = map (\<lambda>(d, r). (d, mean r)) (rows ?R)"
    and t: "tickers res = columns (price_matrix yf ts sd ed bm)"
    and l: "individual_loop [] (labelled_columns ?R) = Inr (individual_metrics res)"
    by (elim exE conjE)
  have t': "tickers res = columns ?R" by (simp add: t return_matrix_columns)
  have pos: "0 < length (tickers res)"
    using return_matrix_not_empty[OF ne] by (simp add: t empty_df_def)
  have dates: "map fst (portfolio_returns res) = map fst (rows ?R)"
    by (simp add: pr comp_def case_prod_unfold)
  have rowmean: "length (snd (rows ?R ! t)) = length (tickers res)
             \<and> snd (portfolio_returns res ! t) =
                 sum_list (snd (rows ?R ! t)) / real (length (tickers res))"
    if "t < length (rows ?R)" for t
  proof -
    have "rows ?R ! t \<in> set (rows ?R)" using that by simp
    then have len: "length (snd (rows ?R ! t)) = length (columns ?R)"
      using return_matrix_rows_length[of yf ts sd ed bm] by (auto simp: case_prod_unfold)
    show ?thesis
      using that len by (simp add: pr t' mean_def case_prod_unfold)
  qed
  have d: "distinct (columns ?R)"
    by (simp add: return_matrix_columns price_matrix_distinct)
  note im = individual_metrics_of_columns[OF l d]
  show "\<exists>res. backtest_equal_weight_portfolio ic yf ts sd ed bm = Inr (Some res)
         \<and> tickers res = columns (return_matrix yf ts sd ed bm)
         \<and> 0 < length (tickers res)
         \<and> map fst (portfolio_returns res) = map fst (rows (return_matrix yf ts sd ed bm))
         \<and> (\<forall>t < length (rows (return_matrix yf ts sd ed bm)).
               length (snd (rows (return_matrix yf ts sd ed bm) ! t)) = length (tickers res)
             \<and> snd (portfolio_returns res ! t) =
                 sum_list (snd (rows (return_matrix yf ts sd ed bm) ! t))
                   / real (length (tickers res)))
         \<and> map fst (individual_metrics res) = tickers res
         \<and> (\<forall>i < length (tickers res).
               \<exists>m. calculate_performance_metrics (column (return_matrix yf ts sd ed bm) i) None
                      = Inr m
                 \<and> map_of (individual_metrics res) (tickers res ! i) = Some m)"
    using rowmean im
    by (intro exI[of _ res] conjI r t' pos dates) (simp_all add: t')
qed

theorem equal_weight_is_row_mean_witness:
  "nonzero_closes yf_two ''2024-01-01'' ''2024-12-31'' ([''A'', ''B''] @ [''SPY''])
   \<and> rows (return_matrix yf_two [''A'', ''B''] ''2024-01-01'' ''2024-12-31'' ''SPY'') \<noteq> []
   \<and> (\<exists>res. backtest_equal_weight_portfolio 100000 yf_two [''A'', ''B'']
                ''2024-01-01'' ''2024-12-31'' ''SPY'' = Inr (Some res)
          \<and> tickers res = [''A'', ''B'']
          \<and> map fst (portfolio_returns res) = [12, 13, 14]
          \<and> snd (portfolio_returns res ! 0) = (1/10 + 0) / 2
          \<and> snd (portfolio_returns res ! 1) = (- 1/10 + 1/10) / 2
          \<and> snd (portfolio_returns res ! 2) = (0 + - 1/5) / 2
          \<and> (\<exists>m. calculate_performance_metrics [(12, 1/10), (13, - 1/10), (14, 0)] None = Inr m
                \<and> map_of (individual_metrics res) ''A'' = Some m)
          \<and> (\<exists>m. calculate_performance_metrics [(12, 0), (13, 1/10), (14, - 1/5)] None = Inr m
                \<and> map_of (individual_metrics res) ''B'' = Some m))"
proof -
  let ?sd = "''2024-01-01''" and ?ed = "''2024-12-31''"
  let ?R = "return_matrix yf_two [''A'', ''B''] ?sd ?ed ''SPY''"
  note inst = equal_weight_is_row_mean[of yf_two ?sd ?ed "[''A'', ''B'']" "''SPY''" 100000]
  have nz: "nonzero_closes yf_two ?sd ?ed ([''A'', ''B''] @ [''SPY''])"
    using nonzero_closes_two by simp
  have ne: "rows ?R \<noteq> []" by (simp add: return_matrix_two)
  from mp[OF inst conjI[OF nz ne]]
  obtain res where
    r: "backtest_equal_weight_portfolio 100000 yf_two [''A'', ''B''] ?sd ?ed ''SPY'' = Inr (Some res)"
    and t: "tickers res = columns ?R"
    and dt: "map fst (portfolio_returns res) = map fst (rows ?R)"
    and rm: "\<forall>t < length (rows ?R).
               length (snd (rows ?R ! t)) = length (tickers res)
             \<and> snd (portfolio_returns res ! t) =
                 sum_list (snd (rows ?R ! t)) / real (length (tickers res))"
    and im: "\<forall>i < length (tickers res).
               \<exists>m. calculate_performance_metrics (column ?R i) None = Inr m
                 \<and> map_of (individual_metrics res) (tickers res ! i) = Some m"
    by (elim exE conjE)
  have t': "tickers res = [''A'', ''B'']" by (simp add: t return_matrix_two)
  have dt': "map fst (portfolio_returns res) = [12, 13, 14]"
    by (simp add: dt return_matrix_two)
  have p0: "snd (portfolio_returns res ! 0) = (1/10 + 0) / 2"
    using rm[rule_format, of 0] by (simp add: t' return_matrix_two)
  have p1: "snd (portfolio_returns res ! 1) = (- 1/10 + 1/10) / 2"
    using rm[rule_format, of 1] by (simp add: t' return_matrix_two)
  have p2: "snd (portfolio_returns res ! 2) = (0 + - 1/5) / 2"
    using rm[rule_format, of 2] by (simp add: t' return_matrix_two)
  have cA: "column ?R 0 = [(12, 1/10), (13, - 1/10), (14, 0)]"
    by (simp add: return_matrix_two column_def)
  have cB: "column ?R 1 = [(12, 0), (13, 1/10), (14, - 1/5)]"
    by (simp add: return_matrix_two column_def)
  have mA: "\<exists>m. calculate_performance_metrics [(12, 1/10), (13, - 1/10), (14, 0)] None = Inr m
                \<and> map_of (individual_metrics res) ''A'' = Some m"
    using im[rule_format, of 0] unfolding cA by (simp add: t')
  have mB: "\<exists>m. calculate_performance_metrics [(12, 0), (13, 1/10), (14, - 1/5)] None = Inr m
                \<and> map_of (individual_metrics res) ''B'' = Some m"
    using im[rule_format, of 1] unfolding cB by (simp add: t')
  have E: "\<exists>res. backtest_equal_weight_portfolio 100000 yf_two [''A'', ''B'']
                ?sd ?ed ''SPY'' = Inr (Some res)
          \<and> tickers res = [''A'', ''B'']
          \<and> map fst (portfolio_returns res) = [12, 13, 14]
          \<and> snd (portfolio_returns res ! 0) = (1/10 + 0) / 2
          \<and> snd (portfolio_returns res ! 1) = (- 1/10 + 1/10) / 2
          \<and> snd (portfolio_returns res ! 2) = (0 + - 1/5) / 2
          \<and> (\<exists>m. calculate_performance_metrics [(12, 1/10), (13, - 1/10), (14, 0)] None = Inr m
                \<and> map_of (individual_metrics res) ''A'' = Some m)
          \<and> (\<exists>m. calculate_performance_metrics [(12, 0), (13, 1/10), (14, - 1/5)] None = Inr m
                \<and> map_of (individual_metrics res) ''B'' = Some m)"
    by (intro exI[of _ res] conjI r t' dt' p0 p1 p2 mA mB)
  show ?thesis by (intro conjI nz ne E)
qed

end
